theory Spec2Isabelle
  imports Main
begin

section \<open>Bytes and character classes\<close>

text \<open>
  Go strings and byte slices are sequences of bytes; \<open>string\<close> (a list of 8-bit
  characters) is used for both, and \<open>length\<close> is Go's \<open>len\<close>.
\<close>

definition inRange :: "char \<Rightarrow> char \<Rightarrow> char \<Rightarrow> bool" where
  "inRange lo hi c = ((of_char lo :: nat) \<le> of_char c \<and> (of_char c :: nat) \<le> of_char hi)"

definition isAlnum :: "char \<Rightarrow> bool" where
  \<comment> \<open>the class \<open>a-zA-Z0-9\<close>\<close>
  "isAlnum c = (inRange CHR ''a'' CHR ''z'' c \<or> inRange CHR ''A'' CHR ''Z'' c
                \<or> inRange CHR ''0'' CHR ''9'' c)"

definition isSpace :: "char \<Rightarrow> bool" where
  \<comment> \<open>the class \<open>\s\<close> of Go's regexp: tab, newline, form feed, carriage return, space\<close>
  "isSpace c = (c \<in> set [CHR 0x09, CHR 0x0A, CHR 0x0C, CHR 0x0D, CHR 0x20])"

definition isDirNameChar :: "char \<Rightarrow> bool" where
  \<comment> \<open>the class \<open>a-zA-Z0-9_-\<close>\<close>
  "isDirNameChar c = (isAlnum c \<or> c = CHR ''_'' \<or> c = CHR ''-'')"

definition isKeyValueChar :: "char \<Rightarrow> bool" where
  \<comment> \<open>the class of \<open>otherAPIKeysRx\<close>: alphanumerics, backslash, slash, caret, brackets,
      parentheses, braces and the punctuation listed; the star is not in it\<close>
  "isKeyValueChar c = (isAlnum c \<or> c \<in> set
     [CHR 0x5C, CHR ''/'', CHR ''^'', CHR '']'', CHR ''['', CHR ''('', CHR '')'',
      CHR ''{'', CHR ''}'', CHR ''!'', CHR ''|'', CHR ''%'', CHR '':'', CHR '';'',
      CHR 0x22, CHR ''~'', CHR ''>'', CHR ''<'', CHR ''='', CHR ''#'', CHR ''@'',
      CHR ''$'', CHR ''_'', CHR ''-'', CHR ''+''])"

section \<open>The fragment of Go's regexp that the package uses\<close>

text \<open>
  The three patterns of the package are concatenations of single-character classes, each
  taken once, optionally (\<open>?\<close>), any number of times (\<open>*\<close>) or at least once (\<open>+\<close>).
  \<open>matchHere\<close> is the leftmost-first (backtracking, greedy) match of such a pattern at
  the start of the input; it returns the input left after the match.
\<close>

datatype rxItem =
    One "char \<Rightarrow> bool"
  | ZeroOrOne "char \<Rightarrow> bool"
  | ZeroOrMore "char \<Rightarrow> bool"
  | OneOrMore "char \<Rightarrow> bool"

fun matchHere :: "rxItem list \<Rightarrow> string \<Rightarrow> string option" where
  "matchHere [] s = Some s"
| "matchHere (One p # its) [] = None"
| "matchHere (One p # its) (c # cs) = (if p c then matchHere its cs else None)"
| "matchHere (ZeroOrOne p # its) [] = matchHere its []"
| "matchHere (ZeroOrOne p # its) (c # cs) =
     (if p c then (case matchHere its cs of
                     Some r \<Rightarrow> Some r
                   | None \<Rightarrow> matchHere its (c # cs))
      else matchHere its (c # cs))"
| "matchHere (ZeroOrMore p # its) [] = matchHere its []"
| "matchHere (ZeroOrMore p # its) (c # cs) =
     (if p c then (case matchHere (ZeroOrMore p # its) cs of
                     Some r \<Rightarrow> Some r
                   | None \<Rightarrow> matchHere its (c # cs))
      else matchHere its (c # cs))"
| "matchHere (OneOrMore p # its) [] = None"
| "matchHere (OneOrMore p # its) (c # cs) =
     (if p c then matchHere (ZeroOrMore p # its) cs else None)"

text \<open>\<open>Regexp.Match\<close>: the pattern is not anchored, a match may start anywhere.\<close>

fun rxMatch :: "rxItem list \<Rightarrow> string \<Rightarrow> bool" where
  "rxMatch rx [] = (matchHere rx [] \<noteq> None)"
| "rxMatch rx (c # cs) = (matchHere rx (c # cs) \<noteq> None \<or> rxMatch rx cs)"

text \<open>
  \<open>Regexp.ReplaceAllFunc\<close> for a pattern that matches no empty string (all three
  patterns here need at least one character): scanning from the left, each match is
  replaced by \<open>repl\<close> of the matched bytes and the scan goes on after the match.
\<close>

function replaceAllFunc :: "rxItem list \<Rightarrow> (string \<Rightarrow> string) \<Rightarrow> string \<Rightarrow> string" where
  "replaceAllFunc rx repl [] = []"
| "replaceAllFunc rx repl (c # cs) =
     (case matchHere rx (c # cs) of
        Some rest \<Rightarrow>
          if length rest < length (c # cs)
          then repl (take (length (c # cs) - length rest) (c # cs)) @ replaceAllFunc rx repl rest
          else c # replaceAllFunc rx repl cs
      | None \<Rightarrow> c # replaceAllFunc rx repl cs)"
  by pat_completeness auto
termination
  by (relation "measure (\<lambda>(rx, repl, s). length s)") auto

definition lit :: "char \<Rightarrow> rxItem" where
  "lit c = One (\<lambda>x. x = c)"

definition cnfFileExtRx :: "rxItem list" where
  \<comment> \<open>\<open>(?i)\.ya?ml\<close>\<close>
  "cnfFileExtRx =
     [lit CHR ''.'',
      One (\<lambda>x. x = CHR ''y'' \<or> x = CHR ''Y''),
      ZeroOrOne (\<lambda>x. x = CHR ''a'' \<or> x = CHR ''A''),
      One (\<lambda>x. x = CHR ''m'' \<or> x = CHR ''M''),
      One (\<lambda>x. x = CHR ''l'' \<or> x = CHR ''L'')]"

definition directoryNameFilter :: "rxItem list" where
  \<comment> \<open>\<open>[^a-zA-Z0-9_-]+\<close>\<close>
  "directoryNameFilter = [OneOrMore (\<lambda>x. \<not> isDirNameChar x)]"

definition otherAPIKeysRx :: "rxItem list" where
  \<comment> \<open>\<open>api_key\s*:\s*[...]+\<close>\<close>
  "otherAPIKeysRx =
     map lit ''api_key'' @
     [ZeroOrMore isSpace, lit CHR '':'', ZeroOrMore isSpace, OneOrMore isKeyValueChar]"

definition directoryNameMaxSize :: nat where
  "directoryNameMaxSize = 32"

definition cleanDirectoryName :: "string \<Rightarrow> string" where
  "cleanDirectoryName name =
     (let filteredName = replaceAllFunc directoryNameFilter (\<lambda>_. ''_'') name
      in if length filteredName > directoryNameMaxSize
         then take directoryNameMaxSize filteredName
         else filteredName)"

section \<open>The replacer for other services' API keys\<close>

record Replacer =
  Regex :: "rxItem list"
  ReplFunc :: "string \<Rightarrow> string"

definition otherAPIKeysReplacer :: Replacer where
  "otherAPIKeysReplacer =
     \<lparr>Regex = otherAPIKeysRx, ReplFunc = (\<lambda>b. ''api_key: ********'')\<rparr>"

text \<open>
  Modelled from the spec: the redacting writer (\<open>RedactingWriter\<close>, with
  \<open>NewRedactingWriter\<close>, \<open>RegisterReplacer\<close>, \<open>Write\<close> and \<open>WriteFromFile\<close>) is
  declared in a file of the package that is not at hand. The spec: a fixed built-in
  scrubber, plus an ordered list of registered replacers; the writer applies all
  replacers, in registration order, to the whole buffer of one write before it is
  committed to disk. The built-in scrubber is the parameter \<open>builtin\<close>.
\<close>

definition applyReplacer :: "Replacer \<Rightarrow> string \<Rightarrow> string" where
  "applyReplacer r b = replaceAllFunc (Regex r) (ReplFunc r) b"

definition applyReplacers :: "Replacer list \<Rightarrow> string \<Rightarrow> string" where
  "applyReplacers rs b = foldl (\<lambda>acc r. applyReplacer r acc) b rs"

definition redact :: "(string \<Rightarrow> string) \<Rightarrow> Replacer list \<Rightarrow> string \<Rightarrow> string" where
  "redact builtin rs b = applyReplacers rs (builtin b)"

section \<open>Paths: the functions of \<open>path/filepath\<close> and \<open>strings\<close> the package calls\<close>

text \<open>
  The separator is the slash and there are no volume names (the Unix build).
  \<open>Ext\<close> scans the name from its end, up to the last separator, for a dot;
  \<open>extScan\<close> takes the reversed name and accumulates what it has passed.
  \<open>Clean\<close> works on the elements between separators: empty elements and \<open>.\<close> are
  dropped, \<open>..\<close> removes the element before it when there is one that is not itself
  \<open>..\<close>, is kept at the start of a path that is not rooted, and is dropped at the
  root; the empty result is \<open>.\<close>. \<open>out\<close> holds the elements kept so far, the last
  one first.
\<close>

fun extScan :: "string \<Rightarrow> string \<Rightarrow> string" where
  "extScan [] acc = []"
| "extScan (c # r) acc =
     (if c = CHR ''/'' then []
      else if c = CHR ''.'' then c # acc
      else extScan r (c # acc))"

definition Ext :: "string \<Rightarrow> string" where
  "Ext path = extScan (rev path) []"

definition HasSuffix :: "string \<Rightarrow> string \<Rightarrow> bool" where
  "HasSuffix s suffix =
     (length suffix \<le> length s \<and> drop (length s - length suffix) s = suffix)"

definition TrimSuffix :: "string \<Rightarrow> string \<Rightarrow> string" where
  "TrimSuffix s suffix =
     (if HasSuffix s suffix then take (length s - length suffix) s else s)"

definition getFirstSuffix :: "string \<Rightarrow> string" where
  "getFirstSuffix s = Ext (TrimSuffix s (Ext s))"

fun splitSep :: "string \<Rightarrow> string list" where
  "splitSep [] = [[]]"
| "splitSep (c # cs) =
     (if c = CHR ''/'' then [] # splitSep cs
      else (case splitSep cs of [] \<Rightarrow> [[c]] | x # xs \<Rightarrow> (c # x) # xs))"

fun joinSep :: "string list \<Rightarrow> string" where
  "joinSep [] = []"
| "joinSep [x] = x"
| "joinSep (x # y # ys) = x @ CHR ''/'' # joinSep (y # ys)"

definition cleanElem :: "bool \<Rightarrow> string list \<Rightarrow> string \<Rightarrow> string list" where
  "cleanElem rooted out e =
     (if e = [] \<or> e = ''.'' then out
      else if e = ''..'' then
        (if out \<noteq> [] \<and> hd out \<noteq> ''..'' then tl out
         else if \<not> rooted then e # out
         else out)
      else e # out)"

definition Clean :: "string \<Rightarrow> string" where
  "Clean path =
     (if path = [] then ''.''
      else
        let rooted = (hd path = CHR ''/'');
            out = foldl (cleanElem rooted) [] (splitSep path);
            s = (if rooted then ''/'' else []) @ joinSep (rev out)
        in if s = [] then ''.'' else s)"

definition Dir :: "string \<Rightarrow> string" where
  \<comment> \<open>\<open>Clean\<close> of the path up to and including its last separator\<close>
  "Dir path = Clean (rev (dropWhile (\<lambda>c. c \<noteq> CHR ''/'') (rev path)))"

definition Base :: "string \<Rightarrow> string" where
  "Base path =
     (if path = [] then ''.''
      else
        let p = rev (dropWhile (\<lambda>c. c = CHR ''/'') (rev path));
            e = rev (takeWhile (\<lambda>c. c \<noteq> CHR ''/'') (rev p))
        in if e = [] then ''/'' else e)"

definition Join :: "string list \<Rightarrow> string" where
  \<comment> \<open>the elements from the first non-empty one on, joined and cleaned\<close>
  "Join elem =
     (case dropWhile (\<lambda>e. e = []) elem of
        [] \<Rightarrow> []
      | es \<Rightarrow> Clean (joinSep es))"

section \<open>The bundle workspace, the log and the collaborators\<close>

text \<open>
  A Go \<open>error\<close> is its message. The world a run changes is the set of files written
  below the temporary directory, each with the kind of handle that wrote it and its
  bytes, and the messages given to the logger.
\<close>

datatype error = Err string

fun errMsg :: "error \<Rightarrow> string" where
  "errMsg (Err m) = m"

datatype logLevel = WarnLevel | ErrorLevel

datatype fileWriter = ByRedactingWriter | ByOsFile

record bundleFile =
  writtenBy :: fileWriter
  content :: string

record world =
  files :: "string \<rightharpoonup> bundleFile"
  logged :: "(logLevel \<times> string) list"

record filePermsInfo =
  mode :: nat
  owner :: string
  group :: string

type_synonym permissionsInfos = "string \<rightharpoonup> filePermsInfo"

type_synonym SearchPaths = "(string \<times> string) list"

record FileInfo =
  Name :: string
  IsDir :: bool

record Response =
  StatusCode :: nat
  Status :: string
  BodyChunks :: "string list"
  BodyErr :: "error option"

text \<open>
  The operating system and the libraries, as far as the package calls them. Each field
  is the outcome of one call: \<open>osOpenFile\<close> of opening a file of the workspace for
  writing, \<open>osWrite\<close> of writing to it, \<open>osReadFile\<close> of opening and reading a source
  file, \<open>fpWalk\<close> the visits \<open>filepath.Walk\<close> makes below a root, in its order (a
  visit without \<open>FileInfo\<close> is one whose \<open>Lstat\<close> failed), \<open>httpDo\<close> a GET request.
  A response body arrives in chunks, possibly ending in a read error.
  \<open>CredentialsCleaner\<close> is the built-in scrubber of the redacting writer.
\<close>

record sys =
  osMkdirAll :: "string \<Rightarrow> error option"
  osOpenFile :: "string \<Rightarrow> error option"
  osWrite :: "string \<Rightarrow> error option"
  osReadFile :: "string \<Rightarrow> error + string"
  osStat :: "string \<Rightarrow> error + filePermsInfo"
  osGetenv :: "string \<Rightarrow> string"
  randRead :: "error + string"
  ioTempDir :: "string \<Rightarrow> error + string"
  fpWalk :: "string \<Rightarrow> (string \<times> FileInfo option) list"
  fpAbs :: "string \<Rightarrow> error + string"
  httpNewRequest :: "string \<Rightarrow> error option"
  httpDo :: "string \<Rightarrow> error + Response"
  jsonIndent :: "string \<Rightarrow> error + string"
  jsonDecode :: "string \<Rightarrow> error + string"
  yamlMarshal :: "string \<Rightarrow> error + string"
  CredentialsCleaner :: "string \<Rightarrow> string"

text \<open>
  The agent's own subsystems and its configuration store: what each producer returns
  when the bundle is made. \<open>expvars\<close> lists the published variables in the order the
  map of \<open>writeExpVar\<close> is iterated, each with the result of marshalling its value.
\<close>

record agent =
  GetHostname :: "error + string"
  GetAndFormatStatus :: "error + string"
  GetConfigCheck :: string
  GetIPCAddress :: "error + string"
  DoGet :: "string \<Rightarrow> error + string"
  taggerListURL :: string
  RunAll :: string
  GetDebugInfo :: "error + string"
  GetReady :: "error + string"
  GetSystemProbeStats :: "error + string"
  AllSettings :: "error + string"
  expvars :: "(string \<times> (error + string)) list"
  GetAuthTokenFilepath :: string
  ConfigFileUsed :: string
  FileUsedDir :: string
  confd_path :: string
  logs_run_path :: string
  expvar_port :: string
  cmd_port :: string
  apm_receiver_port :: "string option"
  system_probe_enabled :: bool
  telemetry_enabled :: bool
  IsContainerized :: bool

definition logf :: "logLevel \<Rightarrow> string \<Rightarrow> world \<Rightarrow> world" where
  "logf lvl msg w = w\<lparr>logged := logged w @ [(lvl, msg)]\<rparr>"

text \<open>
  Bytes reach a file in two ways: appended through a handle that created or truncated
  the file, or written from offset 0 through a handle opened without truncation
  (\<open>os.O_RDWR|os.O_CREATE\<close>).
\<close>

definition createTruncate :: "string \<Rightarrow> fileWriter \<Rightarrow> world \<Rightarrow> world" where
  "createTruncate path by w =
     w\<lparr>files := (files w)(path \<mapsto> \<lparr>writtenBy = by, content = []\<rparr>)\<rparr>"

definition createKeep :: "string \<Rightarrow> fileWriter \<Rightarrow> world \<Rightarrow> world" where
  "createKeep path by w =
     (case files w path of
        None \<Rightarrow> w\<lparr>files := (files w)(path \<mapsto> \<lparr>writtenBy = by, content = []\<rparr>)\<rparr>
      | Some f \<Rightarrow> w)"

definition fileAppend :: "string \<Rightarrow> fileWriter \<Rightarrow> string \<Rightarrow> world \<Rightarrow> world" where
  "fileAppend path by bytes w =
     (case files w path of
        None \<Rightarrow> w\<lparr>files := (files w)(path \<mapsto> \<lparr>writtenBy = by, content = bytes\<rparr>)\<rparr>
      | Some f \<Rightarrow> w\<lparr>files := (files w)(path \<mapsto> f\<lparr>content := content f @ bytes\<rparr>)\<rparr>)"

definition fileOverwrite :: "string \<Rightarrow> fileWriter \<Rightarrow> string \<Rightarrow> world \<Rightarrow> world" where
  "fileOverwrite path by bytes w =
     (case files w path of
        None \<Rightarrow> w\<lparr>files := (files w)(path \<mapsto> \<lparr>writtenBy = by, content = bytes\<rparr>)\<rparr>
      | Some f \<Rightarrow>
          w\<lparr>files := (files w)(path \<mapsto>
               \<lparr>writtenBy = by, content = bytes @ drop (length bytes) (content f)\<rparr>)\<rparr>)"

definition ensureParentDirsExist :: "sys \<Rightarrow> string \<Rightarrow> error option" where
  "ensureParentDirsExist os p = osMkdirAll os (Dir p)"

subsection \<open>The redacting writer\<close>

text \<open>
  Modelled from the spec: \<open>open(path, truncate=true)\<close> fails if the path is invalid or
  permissions are insufficient; \<open>write\<close> treats the whole content of one call as one
  scrubbing unit, applies the built-in scrubber and the registered replacers and commits
  the result, and fails only for true I/O errors; \<open>writeFromFile\<close> reads the entire
  source file, applies redaction and writes. Closing (deferred in every caller, its
  result dropped) is left out.
\<close>

record RedactingWriter =
  target :: string
  replacers :: "Replacer list"

definition NewRedactingWriter :: "sys \<Rightarrow> string \<Rightarrow> world \<Rightarrow> (error + RedactingWriter) \<times> world" where
  "NewRedactingWriter os f w =
     (case osOpenFile os f of
        Some err \<Rightarrow> (Inl err, w)
      | None \<Rightarrow> (Inr \<lparr>target = f, replacers = []\<rparr>, createTruncate f ByRedactingWriter w))"

definition RegisterReplacer :: "Replacer \<Rightarrow> RedactingWriter \<Rightarrow> RedactingWriter" where
  "RegisterReplacer rep wr = wr\<lparr>replacers := replacers wr @ [rep]\<rparr>"

definition rwWrite :: "sys \<Rightarrow> RedactingWriter \<Rightarrow> string \<Rightarrow> world \<Rightarrow> error option \<times> world" where
  "rwWrite os wr p w =
     (case osWrite os (target wr) of
        Some err \<Rightarrow> (Some err, w)
      | None \<Rightarrow>
          (None, fileAppend (target wr) ByRedactingWriter
                   (redact (CredentialsCleaner os) (replacers wr) p) w))"

definition WriteFromFile :: "sys \<Rightarrow> RedactingWriter \<Rightarrow> string \<Rightarrow> world \<Rightarrow> error option \<times> world" where
  "WriteFromFile os wr src w =
     (case osReadFile os src of
        Inl err \<Rightarrow> (Some err, w)
      | Inr data \<Rightarrow> rwWrite os wr data w)"

definition newRedactingWriter :: "sys \<Rightarrow> string \<Rightarrow> world \<Rightarrow> (error + RedactingWriter) \<times> world" where
  "newRedactingWriter os f w =
     (case NewRedactingWriter os f w of
        (Inl err, w') \<Rightarrow> (Inl err, w')
      | (Inr wr, w') \<Rightarrow> (Inr (RegisterReplacer otherAPIKeysReplacer wr), w'))"

text \<open>
  \<open>io.Copy\<close> into a redacting writer hands the body over chunk by chunk, one \<open>Write\<close>
  each; \<open>ioutil.ReadAll\<close> gives the whole body or the read error.
\<close>

fun copyChunks :: "sys \<Rightarrow> RedactingWriter \<Rightarrow> string list \<Rightarrow> world \<Rightarrow> error option \<times> world" where
  "copyChunks os wr [] w = (None, w)"
| "copyChunks os wr (c # cs) w =
     (case rwWrite os wr c w of
        (Some err, w') \<Rightarrow> (Some err, w')
      | (None, w') \<Rightarrow> copyChunks os wr cs w')"

definition ioCopyBody :: "sys \<Rightarrow> RedactingWriter \<Rightarrow> Response \<Rightarrow> world \<Rightarrow> error option \<times> world" where
  "ioCopyBody os wr resp w =
     (case copyChunks os wr (BodyChunks resp) w of
        (Some err, w') \<Rightarrow> (Some err, w')
      | (None, w') \<Rightarrow> (BodyErr resp, w'))"

definition ReadAll :: "Response \<Rightarrow> error + string" where
  "ReadAll resp =
     (case BodyErr resp of
        Some err \<Rightarrow> Inl err
      | None \<Rightarrow> Inr (concat (BodyChunks resp)))"

text \<open>
  A plain file of the workspace: \<open>os.OpenFile\<close> with \<open>os.O_RDWR|os.O_CREATE\<close> creates
  the file or keeps what it holds, and \<open>io.Copy\<close> from an opened source writes the
  bytes of the source as they are, from offset 0.
\<close>

definition OpenFile :: "sys \<Rightarrow> string \<Rightarrow> world \<Rightarrow> error option \<times> world" where
  "OpenFile os filePath w =
     (case osOpenFile os filePath of
        Some err \<Rightarrow> (Some err, w)
      | None \<Rightarrow> (None, createKeep filePath ByOsFile w))"

definition ioCopyFile :: "sys \<Rightarrow> string \<Rightarrow> string \<Rightarrow> world \<Rightarrow> error option \<times> world" where
  "ioCopyFile os filePath original w =
     (case osWrite os filePath of
        Some err \<Rightarrow> (Some err, w)
      | None \<Rightarrow> (None, fileOverwrite filePath ByOsFile original w))"

text \<open>
  Modelled from the spec: \<open>util.CopyFileAll\<close> is declared in a package that is not at
  hand. The spec has the log collector copy every selected file into the \<open>logs\<close>
  directory of the workspace, the last write winning where two files share a name; the
  destination directory is created, and the bytes are those of the source.
\<close>

definition CopyFileAll :: "sys \<Rightarrow> string \<Rightarrow> string \<Rightarrow> world \<Rightarrow> error option \<times> world" where
  "CopyFileAll os src dst w =
     (case ensureParentDirsExist os dst of
        Some err \<Rightarrow> (Some err, w)
      | None \<Rightarrow>
          (case osReadFile os src of
             Inl err \<Rightarrow> (Some err, w)
           | Inr data \<Rightarrow>
               (case osOpenFile os dst of
                  Some err \<Rightarrow> (Some err, w)
                | None \<Rightarrow>
                    (case osWrite os dst of
                       Some err \<Rightarrow> (Some err, w)
                     | None \<Rightarrow>
                         (None, fileAppend dst ByOsFile data
                                  (createTruncate dst ByOsFile w))))))"

text \<open>
  Modelled from the spec: the permissions tracker's \<open>add\<close> (declared in a file of the
  package that is not at hand) stats the path and, if the stat succeeds, stores mode,
  owner and group under the path; it never raises.
\<close>

definition add :: "sys \<Rightarrow> string \<Rightarrow> permissionsInfos \<Rightarrow> permissionsInfos" where
  "add os path permsInfos =
     (case osStat os path of
        Inr info \<Rightarrow> permsInfos(path \<mapsto> info)
      | Inl err \<Rightarrow> permsInfos)"

section \<open>The parent chain of a directory\<close>

text \<open>
  \<open>Clean\<close> never returns a longer path than it is given (but for the empty path, which
  becomes \<open>.\<close>), so neither does \<open>Dir\<close>: this is what ends the loop of
  \<open>addParentPerms\<close>.
\<close>

fun elemCost :: "string list \<Rightarrow> nat" where
  "elemCost [] = 0"
| "elemCost (e # es) = Suc (length e) + elemCost es"

lemma splitSep_nonempty: "splitSep s \<noteq> []"
  by (induction s) (auto split: list.splits)

lemma elemCost_splitSep: "elemCost (splitSep s) = Suc (length s)"
  by (induction s) (auto split: list.splits simp: splitSep_nonempty)

lemma elemCost_cleanElem: "elemCost (cleanElem rooted out e) \<le> elemCost out + Suc (length e)"
  by (cases out) (auto simp: cleanElem_def)

lemma elemCost_foldl:
  "elemCost (foldl (cleanElem rooted) out es) \<le> elemCost out + elemCost es"
proof (induction es arbitrary: out)
  case Nil
  then show ?case by simp
next
  case (Cons e es)
  have "elemCost (foldl (cleanElem rooted) (cleanElem rooted out e) es)
        \<le> elemCost (cleanElem rooted out e) + elemCost es"
    by (rule Cons.IH)
  also have "\<dots> \<le> elemCost out + Suc (length e) + elemCost es"
    using elemCost_cleanElem [of rooted out e] by simp
  finally show ?case by simp
qed

lemma elemCost_append: "elemCost (xs @ ys) = elemCost xs + elemCost ys"
  by (induction xs) auto

lemma elemCost_rev: "elemCost (rev xs) = elemCost xs"
  by (induction xs) (auto simp: elemCost_append)

lemma length_joinSep: "length (joinSep xs) = elemCost xs - 1"
  by (induction xs rule: joinSep.induct) auto

lemma Clean_nonempty: "Clean s \<noteq> []"
  by (auto simp: Clean_def Let_def)

lemma length_Clean: "s \<noteq> [] \<Longrightarrow> length (Clean s) \<le> length s"
proof (cases s)
  case Nil
  assume "s \<noteq> []" with Nil show ?thesis by simp
next
  case (Cons c cs)
  show ?thesis
  proof (cases "c = CHR ''/''")
    case True
    let ?out = "foldl (cleanElem True) [] (splitSep cs)"
    have "elemCost ?out \<le> Suc (length cs)"
      using elemCost_foldl [of True "[]" "splitSep cs"] by (simp add: elemCost_splitSep)
    then have "length (joinSep (rev ?out)) \<le> length cs"
      by (simp add: length_joinSep elemCost_rev)
    then show ?thesis
      using Cons True by (simp add: Clean_def Let_def cleanElem_def)
  next
    case False
    let ?out = "foldl (cleanElem False) [] (splitSep s)"
    have "elemCost ?out \<le> Suc (length s)"
      using elemCost_foldl [of False "[]" "splitSep s"] by (simp add: elemCost_splitSep)
    then have "length (joinSep (rev ?out)) \<le> length s"
      by (simp add: length_joinSep elemCost_rev)
    then show ?thesis
      using Cons False by (auto simp: Clean_def Let_def)
  qed
qed

lemma length_Dir: "p \<noteq> [] \<Longrightarrow> length (Dir p) \<le> length p"
proof -
  assume p: "p \<noteq> []"
  let ?q = "rev (dropWhile (\<lambda>c. c \<noteq> CHR ''/'') (rev p))"
  have q: "length ?q \<le> length p"
    using length_dropWhile_le [of "\<lambda>c. c \<noteq> CHR ''/''" "rev p"] by simp
  show ?thesis
  proof (cases "?q = []")
    case True
    then have "Dir p = ''.''" by (simp add: Dir_def Clean_def)
    with p show ?thesis by (cases p) auto
  next
    case False
    then have "length (Clean ?q) \<le> length ?q" by (rule length_Clean)
    with q show ?thesis by (simp add: Dir_def)
  qed
qed

lemma Dir_nonempty: "Dir p \<noteq> []"
  by (simp add: Dir_def Clean_nonempty)

lemma Dir_empty: "Dir [] = ''.''"
  by (simp add: Dir_def Clean_def)

text \<open>
  The loop of \<open>addParentPerms\<close>: \<open>parent\<close> is the loop variable, and the tracker is
  returned as the loop leaves it.
\<close>

function parentLoop :: "sys \<Rightarrow> string \<Rightarrow> permissionsInfos \<Rightarrow> permissionsInfos" where
  "parentLoop os parent permsInfos =
     (if parent = ''.'' then permsInfos
      else if length (Dir parent) = length parent then add os parent permsInfos
      else parentLoop os (Dir parent) (add os parent permsInfos))"
  by pat_completeness auto
termination
proof (relation "measure (\<lambda>(os, parent, m). if parent = [] then 2 else length parent)")
  show "wf (measure (\<lambda>(os :: sys, parent :: string, m :: permissionsInfos).
              if parent = [] then 2 else length parent))"
    by simp
next
  fix os :: sys and parent :: string and permsInfos :: permissionsInfos
  assume a: "parent \<noteq> ''.''" "length (Dir parent) \<noteq> length parent"
  show "((os, Dir parent, add os parent permsInfos), (os, parent, permsInfos))
        \<in> measure (\<lambda>(os, parent, m). if parent = [] then 2 else length parent)"
  proof (cases "parent = []")
    case True
    then show ?thesis by (simp add: Dir_empty)
  next
    case False
    with a length_Dir [of parent] show ?thesis by (simp add: Dir_nonempty)
  qed
qed

declare parentLoop.simps [simp del]

definition addParentPerms :: "sys \<Rightarrow> string \<Rightarrow> permissionsInfos \<Rightarrow> permissionsInfos" where
  "addParentPerms os dirPath permsInfos = parentLoop os (Dir dirPath) permsInfos"

section \<open>The collectors\<close>

text \<open>
  Every collector takes the world and returns its error with the world it leaves. The
  deferred \<open>Close\<close> calls are left out.
\<close>

definition hexDigit :: "nat \<Rightarrow> char" where
  "hexDigit n = ''0123456789abcdef'' ! n"

definition EncodeToString :: "string \<Rightarrow> string" where
  "EncodeToString b =
     concat (map (\<lambda>v. [hexDigit (of_char v div 16), hexDigit (of_char v mod 16)]) b)"

definition createTempDir :: "sys \<Rightarrow> error + string" where
  "createTempDir os =
     (case randRead os of
        Inl err \<Rightarrow> Inl err
      | Inr b \<Rightarrow> ioTempDir os (EncodeToString b))"

definition writeStatusFileLocal ::
  "sys \<Rightarrow> string \<Rightarrow> string \<Rightarrow> string \<Rightarrow> world \<Rightarrow> error option \<times> world" where
  "writeStatusFileLocal os tempDir hostname data w =
     (let f = Join [tempDir, hostname, ''status.log''] in
      case ensureParentDirsExist os f of
        Some err \<Rightarrow> (Some err, w)
      | None \<Rightarrow>
          (case newRedactingWriter os f w of
             (Inl err, w1) \<Rightarrow> (Some err, w1)
           | (Inr wr, w1) \<Rightarrow> rwWrite os wr data w1))"

definition writeStatusFile ::
  "sys \<Rightarrow> agent \<Rightarrow> string \<Rightarrow> string \<Rightarrow> world \<Rightarrow> error option \<times> world" where
  "writeStatusFile os ag tempDir hostname w =
     (case GetAndFormatStatus ag of
        Inl err \<Rightarrow> (Some err, w)
      | Inr s \<Rightarrow> writeStatusFileLocal os tempDir hostname s w)"

definition writeConfigCheckLocal ::
  "sys \<Rightarrow> string \<Rightarrow> string \<Rightarrow> string \<Rightarrow> world \<Rightarrow> error option \<times> world" where
  "writeConfigCheckLocal os tempDir hostname data w =
     (let f = Join [tempDir, hostname, ''config-check.log''] in
      case ensureParentDirsExist os f of
        Some err \<Rightarrow> (Some err, w)
      | None \<Rightarrow>
          (case newRedactingWriter os f w of
             (Inl err, w1) \<Rightarrow> (Some err, w1)
           | (Inr wr, w1) \<Rightarrow> rwWrite os wr data w1))"

definition writeConfigCheck ::
  "sys \<Rightarrow> agent \<Rightarrow> string \<Rightarrow> string \<Rightarrow> world \<Rightarrow> error option \<times> world" where
  "writeConfigCheck os ag tempDir hostname w =
     writeConfigCheckLocal os tempDir hostname (GetConfigCheck ag) w"

definition writeTaggerList ::
  "sys \<Rightarrow> agent \<Rightarrow> string \<Rightarrow> string \<Rightarrow> world \<Rightarrow> error option \<times> world" where
  "writeTaggerList os ag tempDir hostname w =
     (let f = Join [tempDir, hostname, ''tagger-list.json''] in
      case ensureParentDirsExist os f of
        Some err \<Rightarrow> (Some err, w)
      | None \<Rightarrow>
          (case newRedactingWriter os f w of
             (Inl err, w1) \<Rightarrow> (Some err, w1)
           | (Inr wr, w1) \<Rightarrow>
               (case GetIPCAddress ag of
                  Inl err \<Rightarrow> (Some err, w1)
                | Inr ipcAddress \<Rightarrow>
                    let url = (if taggerListURL ag = []
                               then ''https://'' @ ipcAddress @ '':'' @ cmd_port ag
                                    @ ''/agent/tagger-list''
                               else taggerListURL ag)
                    in (case DoGet ag url of
                          Inl err \<Rightarrow> (Some err, w1)
                        | Inr r \<Rightarrow>
                            (case jsonIndent os r of
                               Inl err \<Rightarrow> rwWrite os wr r w1
                             | Inr b \<Rightarrow> rwWrite os wr b w1)))))"

fun writeExpVarLoop ::
  "sys \<Rightarrow> string \<Rightarrow> string \<Rightarrow> (string \<times> (error + string)) list \<Rightarrow> world
   \<Rightarrow> error option \<times> world" where
  "writeExpVarLoop os tempDir hostname [] w = (None, w)"
| "writeExpVarLoop os tempDir hostname ((key, marshalled) # variables) w =
     (case marshalled of
        Inl err \<Rightarrow> (Some err, w)
      | Inr yamlValue \<Rightarrow>
          let f = Join [tempDir, hostname, ''expvar'', key] in
          (case ensureParentDirsExist os f of
             Some err \<Rightarrow> (Some err, w)
           | None \<Rightarrow>
               (case newRedactingWriter os f w of
                  (Inl err, w1) \<Rightarrow> (Some err, w1)
                | (Inr wr, w1) \<Rightarrow>
                    (case rwWrite os wr yamlValue w1 of
                       (Some err, w2) \<Rightarrow> (Some err, w2)
                     | (None, w2) \<Rightarrow> writeExpVarLoop os tempDir hostname variables w2))))"

definition writeExpVar ::
  "sys \<Rightarrow> agent \<Rightarrow> string \<Rightarrow> string \<Rightarrow> world \<Rightarrow> error option \<times> world" where
  "writeExpVar os ag tempDir hostname w =
     (case writeExpVarLoop os tempDir hostname (expvars ag) w of
        (Some err, w0) \<Rightarrow> (Some err, w0)
      | (None, w0) \<Rightarrow>
          let apmPort0 = (case apm_receiver_port ag of Some p \<Rightarrow> p | None \<Rightarrow> ''8126'');
              v = osGetenv os ''DD_APM_RECEIVER_PORT'';
              apmPort = (if v \<noteq> [] then v else apmPort0);
              f = Join [tempDir, hostname, ''expvar'', ''trace-agent'']
          in (case newRedactingWriter os f w0 of
                (Inl err, w1) \<Rightarrow> (Some err, w1)
              | (Inr wr, w1) \<Rightarrow>
                  (case httpDo os (''http://127.0.0.1:'' @ apmPort @ ''/debug/vars'') of
                     Inl err \<Rightarrow> rwWrite os wr (''Error retrieving vars: '' @ errMsg err) w1
                   | Inr resp \<Rightarrow>
                       if StatusCode resp \<noteq> 200 then
                         (case ReadAll resp of
                            Inl err \<Rightarrow> (Some err, w1)
                          | Inr slurp \<Rightarrow>
                              rwWrite os wr
                                (''Got response '' @ Status resp @ '' from /debug/vars:''
                                 @ [CHR 0x0A] @ slurp) w1)
                       else
                         (case (case ReadAll resp of
                                  Inl err \<Rightarrow> Inl err
                                | Inr body \<Rightarrow> jsonDecode os body) of
                            Inl err \<Rightarrow>
                              (Some (Err (''error decoding trace-agent /debug/vars response: ''
                                          @ errMsg err)), w1)
                          | Inr all \<Rightarrow>
                              (case yamlMarshal os all of
                                 Inl err \<Rightarrow> (Some err, w1)
                               | Inr v \<Rightarrow> rwWrite os wr v w1)))))"

definition writeSystemProbeStats ::
  "sys \<Rightarrow> agent \<Rightarrow> string \<Rightarrow> string \<Rightarrow> world \<Rightarrow> error option \<times> world" where
  "writeSystemProbeStats os ag tempDir hostname w =
     (let sysProbeFile = Join [tempDir, hostname, ''expvar'', ''system-probe''] in
      case newRedactingWriter os sysProbeFile w of
        (Inl err, w1) \<Rightarrow> (Some err, w1)
      | (Inr sysProbeWriter, w1) \<Rightarrow>
          (case GetSystemProbeStats ag of
             Inl err \<Rightarrow> (Some err, w1)
           | Inr sysProbeBuf \<Rightarrow> rwWrite os sysProbeWriter sysProbeBuf w1))"

definition writeSecrets ::
  "sys \<Rightarrow> agent \<Rightarrow> string \<Rightarrow> string \<Rightarrow> world \<Rightarrow> error option \<times> world" where
  "writeSecrets os ag tempDir hostname w =
     (let b = (case GetDebugInfo ag of Inl err \<Rightarrow> errMsg err | Inr info \<Rightarrow> info);
          f = Join [tempDir, hostname, ''secrets.log'']
      in case ensureParentDirsExist os f of
           Some err \<Rightarrow> (Some err, w)
         | None \<Rightarrow>
             (case newRedactingWriter os f w of
                (Inl err, w1) \<Rightarrow> (Some err, w1)
              | (Inr wr, w1) \<Rightarrow> rwWrite os wr b w1))"

definition writeDiagnose ::
  "sys \<Rightarrow> agent \<Rightarrow> string \<Rightarrow> string \<Rightarrow> world \<Rightarrow> error option \<times> world" where
  "writeDiagnose os ag tempDir hostname w =
     (let b = RunAll ag;
          f = Join [tempDir, hostname, ''diagnose.log'']
      in case ensureParentDirsExist os f of
           Some err \<Rightarrow> (Some err, w)
         | None \<Rightarrow>
             (case newRedactingWriter os f w of
                (Inl err, w1) \<Rightarrow> (Some err, w1)
              | (Inr wr, w1) \<Rightarrow> rwWrite os wr b w1))"

definition writeRegistryJSON ::
  "sys \<Rightarrow> agent \<Rightarrow> string \<Rightarrow> string \<Rightarrow> world \<Rightarrow> error option \<times> world" where
  "writeRegistryJSON os ag tempDir hostname w =
     (let originalPath = Join [logs_run_path ag, ''registry.json''] in
      case osReadFile os originalPath of
        Inl err \<Rightarrow> (Some err, w)
      | Inr original \<Rightarrow>
          let filePath = Join [tempDir, hostname, ''registry.json''] in
          (case ensureParentDirsExist os filePath of
             Some err \<Rightarrow> (Some err, w)
           | None \<Rightarrow>
               (case OpenFile os filePath w of
                  (Some err, w1) \<Rightarrow> (Some err, w1)
                | (None, w1) \<Rightarrow> ioCopyFile os filePath original w1)))"

definition writeVersionHistory ::
  "sys \<Rightarrow> agent \<Rightarrow> string \<Rightarrow> string \<Rightarrow> world \<Rightarrow> error option \<times> world" where
  "writeVersionHistory os ag tempDir hostname w =
     (let originalPath = Join [logs_run_path ag, ''version-history.json''] in
      case osReadFile os originalPath of
        Inl err \<Rightarrow> (Some err, w)
      | Inr original \<Rightarrow>
          let filePath = Join [tempDir, hostname, ''version-history.json''] in
          (case ensureParentDirsExist os filePath of
             Some err \<Rightarrow> (Some err, w)
           | None \<Rightarrow>
               (case OpenFile os filePath w of
                  (Some err, w1) \<Rightarrow> (Some err, w1)
                | (None, w1) \<Rightarrow> ioCopyFile os filePath original w1)))"

definition writeHealth ::
  "sys \<Rightarrow> agent \<Rightarrow> string \<Rightarrow> string \<Rightarrow> world \<Rightarrow> error option \<times> world" where
  "writeHealth os ag tempDir hostname w =
     (case GetReady ag of
        Inl err \<Rightarrow> (Some err, w)
      | Inr yamlValue \<Rightarrow>
          let f = Join [tempDir, hostname, ''health.yaml''] in
          (case ensureParentDirsExist os f of
             Some err \<Rightarrow> (Some err, w)
           | None \<Rightarrow>
               (case newRedactingWriter os f w of
                  (Inl err, w1) \<Rightarrow> (Some err, w1)
                | (Inr wr, w1) \<Rightarrow> rwWrite os wr yamlValue w1)))"

definition writeInstallInfo ::
  "sys \<Rightarrow> agent \<Rightarrow> string \<Rightarrow> string \<Rightarrow> world \<Rightarrow> error option \<times> world" where
  "writeInstallInfo os ag tempDir hostname w =
     (let originalPath = Join [FileUsedDir ag, ''install_info''] in
      case osReadFile os originalPath of
        Inl err \<Rightarrow> (Some err, w)
      | Inr original \<Rightarrow>
          let zippedPath = Join [tempDir, hostname, ''install_info''] in
          (case ensureParentDirsExist os zippedPath of
             Some err \<Rightarrow> (Some err, w)
           | None \<Rightarrow>
               (case OpenFile os zippedPath w of
                  (Some err, w1) \<Rightarrow> (Some err, w1)
                | (None, w1) \<Rightarrow> ioCopyFile os zippedPath original w1)))"

definition routineDumpFilename :: string where
  "routineDumpFilename = ''go-routine-dump.log''"

definition pprofURL :: "agent \<Rightarrow> string" where
  "pprofURL ag = ''http://127.0.0.1:'' @ expvar_port ag @ ''/debug/pprof/goroutine?debug=2''"

definition telemetryURL :: "agent \<Rightarrow> string" where
  "telemetryURL ag = ''http://127.0.0.1:'' @ expvar_port ag @ ''/telemetry''"

definition writeHTTPCallContent ::
  "sys \<Rightarrow> string \<Rightarrow> string \<Rightarrow> string \<Rightarrow> string \<Rightarrow> world \<Rightarrow> error option \<times> world" where
  "writeHTTPCallContent os tempDir hostname filename url w =
     (case httpNewRequest os url of
        Some err \<Rightarrow> (Some err, w)
      | None \<Rightarrow>
          (case httpDo os url of
             Inl err \<Rightarrow> (Some err, w)
           | Inr resp \<Rightarrow>
               let f = Join [tempDir, hostname, filename] in
               (case ensureParentDirsExist os f of
                  Some err \<Rightarrow> (Some err, w)
                | None \<Rightarrow>
                    (case newRedactingWriter os f w of
                       (Inl err, w1) \<Rightarrow> (Some err, w1)
                     | (Inr wr, w1) \<Rightarrow> ioCopyBody os wr resp w1))))"

definition writeTelemetry ::
  "sys \<Rightarrow> agent \<Rightarrow> string \<Rightarrow> string \<Rightarrow> world \<Rightarrow> error option \<times> world" where
  "writeTelemetry os ag tempDir hostname w =
     writeHTTPCallContent os tempDir hostname ''telemetry.log'' (telemetryURL ag) w"

definition writeStackTraces ::
  "sys \<Rightarrow> agent \<Rightarrow> string \<Rightarrow> string \<Rightarrow> world \<Rightarrow> error option \<times> world" where
  "writeStackTraces os ag tempDir hostname w =
     writeHTTPCallContent os tempDir hostname routineDumpFilename (pprofURL ag) w"

section \<open>Configuration files and log files\<close>

text \<open>
  \<open>filepath.Walk\<close> calls the function on every visit and stops at the first error the
  function returns. The state the functions below thread through a walk is the tracker
  (\<open>None\<close> for a nil map) and the world.
\<close>

fun Walk ::
  "(string \<times> FileInfo option) list \<Rightarrow> (string \<Rightarrow> FileInfo option \<Rightarrow> 's \<Rightarrow> error option \<times> 's)
   \<Rightarrow> 's \<Rightarrow> error option \<times> 's" where
  "Walk [] fn st = (None, st)"
| "Walk ((src, f) # visits) fn st =
     (case fn src f st of
        (Some err, st') \<Rightarrow> (Some err, st')
      | (None, st') \<Rightarrow> Walk visits fn st')"

text \<open>\<open>strings.Replace(s, old, new, 1)\<close>: the first occurrence of \<open>old\<close> is replaced.\<close>

fun replaceFirst :: "string \<Rightarrow> string \<Rightarrow> string \<Rightarrow> string" where
  "replaceFirst [] old new = (if old = [] then new else [])"
| "replaceFirst (c # cs) old new =
     (if take (length old) (c # cs) = old then new @ drop (length old) (c # cs)
      else c # replaceFirst cs old new)"

text \<open>The function \<open>walkConfigFilePaths\<close> gives to \<open>filepath.Walk\<close>.\<close>

definition walkConfigFilePathsFn ::
  "sys \<Rightarrow> string \<Rightarrow> string \<Rightarrow> string \<Rightarrow> string \<Rightarrow> string \<Rightarrow> FileInfo option
   \<Rightarrow> permissionsInfos option \<times> world \<Rightarrow> error option \<times> (permissionsInfos option \<times> world)" where
  "walkConfigFilePathsFn os tempDir hostname prefix filePath src fi st =
     (case fi of
        None \<Rightarrow> (None, st)
      | Some f \<Rightarrow>
          if IsDir f then (None, st)
          else if Ext (Name f) = ''.example'' then (None, st)
          else
            let firstSuffix = getFirstSuffix (Name f);
                ext = Ext (Name f)
            in if rxMatch cnfFileExtRx firstSuffix \<or> rxMatch cnfFileExtRx ext then
                 let baseName = replaceFirst src filePath [];
                     dst = Join [tempDir, hostname, ''etc'', ''confd'', prefix, baseName]
                 in (case ensureParentDirsExist os dst of
                       Some err \<Rightarrow> (Some err, st)
                     | None \<Rightarrow>
                         (case newRedactingWriter os dst (snd st) of
                            (Inl err, w1) \<Rightarrow> (Some err, (fst st, w1))
                          | (Inr wr, w1) \<Rightarrow>
                              (case WriteFromFile os wr src w1 of
                                 (Some err, w2) \<Rightarrow> (Some err, (fst st, w2))
                               | (None, w2) \<Rightarrow>
                                   (case fst st of
                                      None \<Rightarrow> (None, (None, w2))
                                    | Some permsInfos \<Rightarrow>
                                        let permsInfos1 = add os src permsInfos in
                                        if permsInfos1 \<noteq> Map.empty then
                                          (case fpAbs os filePath of
                                             Inl err \<Rightarrow>
                                               (None,
                                                (Some (addParentPerms os [] permsInfos1),
                                                 logf ErrorLevel
                                                   (''Error while getting absolute file path for parent directory: ''
                                                    @ errMsg err) w2))
                                           | Inr absPath \<Rightarrow>
                                               (None,
                                                (Some (addParentPerms os absPath permsInfos1), w2)))
                                        else (None, (Some permsInfos1, w2))))))
               else (None, st))"

fun walkConfigFilePaths ::
  "sys \<Rightarrow> string \<Rightarrow> string \<Rightarrow> SearchPaths \<Rightarrow> permissionsInfos option \<times> world
   \<Rightarrow> error option \<times> (permissionsInfos option \<times> world)" where
  "walkConfigFilePaths os tempDir hostname [] st = (None, st)"
| "walkConfigFilePaths os tempDir hostname ((prefix, filePath) # confSearchPaths) st =
     (case Walk (fpWalk os filePath)
             (walkConfigFilePathsFn os tempDir hostname prefix filePath) st of
        (Some err, st') \<Rightarrow> (Some err, st')
      | (None, st') \<Rightarrow> walkConfigFilePaths os tempDir hostname confSearchPaths st')"

definition createConfigFiles ::
  "sys \<Rightarrow> string \<Rightarrow> string \<Rightarrow> string \<Rightarrow> permissionsInfos option \<times> world
   \<Rightarrow> error option \<times> (permissionsInfos option \<times> world)" where
  "createConfigFiles os filePath tempDir hostname st =
     (case osStat os filePath of
        Inl err \<Rightarrow> (Some err, st)
      | Inr info \<Rightarrow>
          let f = Join [tempDir, hostname, ''etc'', Base filePath] in
          (case ensureParentDirsExist os f of
             Some err \<Rightarrow> (Some err, st)
           | None \<Rightarrow>
               (case newRedactingWriter os f (snd st) of
                  (Inl err, w1) \<Rightarrow> (Some err, (fst st, w1))
                | (Inr wr, w1) \<Rightarrow>
                    (case WriteFromFile os wr filePath w1 of
                       (Some err, w2) \<Rightarrow> (Some err, (fst st, w2))
                     | (None, w2) \<Rightarrow>
                         (case fst st of
                            None \<Rightarrow> (None, (None, w2))
                          | Some permsInfos \<Rightarrow>
                              (None, (Some (add os filePath permsInfos), w2)))))))"

definition getSystemProbePath :: "string \<Rightarrow> string" where
  "getSystemProbePath ddCfgFilePath = Join [Dir ddCfgFilePath, ''system-probe.yaml'']"

definition writeConfigFiles ::
  "sys \<Rightarrow> agent \<Rightarrow> string \<Rightarrow> string \<Rightarrow> SearchPaths \<Rightarrow> permissionsInfos option \<times> world
   \<Rightarrow> error option \<times> (permissionsInfos option \<times> world)" where
  "writeConfigFiles os ag tempDir hostname confSearchPaths st =
     (case AllSettings ag of
        Inl err \<Rightarrow> (Some err, st)
      | Inr c \<Rightarrow>
          let f = Join [tempDir, hostname, ''runtime_config_dump.yaml''] in
          (case ensureParentDirsExist os f of
             Some err \<Rightarrow> (Some err, st)
           | None \<Rightarrow>
               (case newRedactingWriter os f (snd st) of
                  (Inl err, w1) \<Rightarrow> (Some err, (fst st, w1))
                | (Inr wr, w1) \<Rightarrow>
                    (case rwWrite os wr c w1 of
                       (Some err, w2) \<Rightarrow> (Some err, (fst st, w2))
                     | (None, w2) \<Rightarrow>
                         (case walkConfigFilePaths os tempDir hostname confSearchPaths
                                 (fst st, w2) of
                            (Some err, st3) \<Rightarrow> (Some err, st3)
                          | (None, st3) \<Rightarrow>
                              if ConfigFileUsed ag \<noteq> [] then
                                let filePath = ConfigFileUsed ag in
                                (case createConfigFiles os filePath tempDir hostname st3 of
                                   (Some err, st4) \<Rightarrow> (Some err, st4)
                                 | (None, st4) \<Rightarrow>
                                     let systemProbePath = getSystemProbePath filePath in
                                     (case createConfigFiles os systemProbePath tempDir
                                             hostname st4 of
                                        (Some systemErr, st5) \<Rightarrow>
                                          (None,
                                           (fst st5,
                                            logf WarnLevel
                                              (''could not write system-probe.yaml, system-probe might not be configured, or is in a different directory with datadog.yaml: ''
                                               @ errMsg systemErr) (snd st5)))
                                      | (None, st5) \<Rightarrow> (None, st5)))
                              else (None, st3))))))"

text \<open>The function \<open>writeLogFiles\<close> gives to \<open>filepath.Walk\<close>.\<close>

definition writeLogFilesFn ::
  "sys \<Rightarrow> string \<Rightarrow> string \<Rightarrow> string \<Rightarrow> FileInfo option
   \<Rightarrow> permissionsInfos option \<times> world \<Rightarrow> error option \<times> (permissionsInfos option \<times> world)" where
  "writeLogFilesFn os tempDir hostname src fi st =
     (case fi of
        None \<Rightarrow> (None, st)
      | Some f \<Rightarrow>
          if IsDir f then (None, st)
          else if Ext (Name f) = ''.log'' \<or> getFirstSuffix (Name f) = ''.log'' then
            let dst = Join [tempDir, hostname, ''logs'', Name f];
                permsInfos1 = (case fst st of
                                 None \<Rightarrow> None
                               | Some permsInfos \<Rightarrow> Some (add os src permsInfos))
            in (case CopyFileAll os src dst (snd st) of
                  (err, w1) \<Rightarrow> (err, (permsInfos1, w1)))
          else (None, st))"

definition writeLogFiles ::
  "sys \<Rightarrow> string \<Rightarrow> string \<Rightarrow> string \<Rightarrow> permissionsInfos option \<times> world
   \<Rightarrow> error option \<times> (permissionsInfos option \<times> world)" where
  "writeLogFiles os tempDir hostname logFilePath st =
     (let logFileDir = Dir logFilePath in
      case Walk (fpWalk os logFileDir) (writeLogFilesFn os tempDir hostname) st of
        (err, st1) \<Rightarrow>
          (case fst st1 of
             None \<Rightarrow> (err, st1)
           | Some permsInfos \<Rightarrow>
               if permsInfos \<noteq> Map.empty then
                 (case fpAbs os logFileDir of
                    Inl err' \<Rightarrow>
                      (err,
                       (Some (addParentPerms os [] permsInfos),
                        logf ErrorLevel
                          (''Error while getting absolute file path for parent directory: ''
                           @ errMsg err') (snd st1)))
                  | Inr absPath \<Rightarrow> (err, (Some (addParentPerms os absPath permsInfos), snd st1)))
               else (err, st1)))"

section \<open>The orchestrator\<close>

text \<open>
  The collectors declared in files of the package that are not at hand are parameters:
  each takes the temporary directory, the hostname and the world, as the ones above do,
  and \<open>commit\<close> takes the tracker as well.
\<close>

record absent =
  writeLocal :: "string \<Rightarrow> string \<Rightarrow> world \<Rightarrow> error option \<times> world"
  writeEnvvars :: "string \<Rightarrow> string \<Rightarrow> world \<Rightarrow> error option \<times> world"
  writeDockerSelfInspect :: "string \<Rightarrow> string \<Rightarrow> world \<Rightarrow> error option \<times> world"
  writeDockerPs :: "string \<Rightarrow> string \<Rightarrow> world \<Rightarrow> error option \<times> world"
  writeTypeperfData :: "string \<Rightarrow> string \<Rightarrow> world \<Rightarrow> error option \<times> world"
  writeCounterStrings :: "string \<Rightarrow> string \<Rightarrow> world \<Rightarrow> error option \<times> world"
  commit :: "permissionsInfos option \<Rightarrow> string \<Rightarrow> string \<Rightarrow> world \<Rightarrow> error option \<times> world"

definition logIfErr :: "logLevel \<Rightarrow> string \<Rightarrow> error option \<times> world \<Rightarrow> world" where
  "logIfErr lvl msg r =
     (case r of
        (None, w) \<Rightarrow> w
      | (Some err, w) \<Rightarrow> logf lvl (msg @ errMsg err) w)"

definition logIfErrP ::
  "logLevel \<Rightarrow> string \<Rightarrow> error option \<times> (permissionsInfos option \<times> world)
   \<Rightarrow> permissionsInfos option \<times> world" where
  "logIfErrP lvl msg r =
     (case r of
        (None, st) \<Rightarrow> st
      | (Some err, st) \<Rightarrow> (fst st, logf lvl (msg @ errMsg err) (snd st)))"

text \<open>
  \<open>createArchive\<close> returns the temporary directory, the hostname and the error; the
  model returns with them the tracker as \<open>commit\<close> received it and the world the run
  leaves. The first block is the \<open>if local\<close> statement: \<open>Inl\<close> is one of its
  \<open>return\<close>s, \<open>Inr\<close> the world with which the function goes on.
\<close>

definition createArchive ::
  "sys \<Rightarrow> agent \<Rightarrow> absent \<Rightarrow> bool \<Rightarrow> SearchPaths \<Rightarrow> string \<Rightarrow> world
   \<Rightarrow> (string \<times> string \<times> error option) \<times> permissionsInfos option \<times> world" where
  "createArchive os ag ab local confSearchPaths logFilePath w =
     (case createTempDir os of
        Inl err \<Rightarrow> (([], ''unknown'', Some err), None, w)
      | Inr tempDir \<Rightarrow>
          let hostname = cleanDirectoryName
                (case GetHostname ag of Inl err \<Rightarrow> ''unknown'' | Inr h \<Rightarrow> h);
              permsInfos = Map.empty
          in
          (case (if local then
                   (case writeLocal ab tempDir hostname w of
                      (Some err, w1) \<Rightarrow> Inl (err, w1)
                    | (None, w1) \<Rightarrow>
                        (case writeStatusFileLocal os tempDir hostname
                                ''unable to get the status of the agent, is it running?'' w1 of
                           (Some err, w2) \<Rightarrow> Inl (err, w2)
                         | (None, w2) \<Rightarrow>
                             (case writeConfigCheckLocal os tempDir hostname
                                     ''unable to get loaded checks config, is the agent running?'' w2 of
                                (Some err, w3) \<Rightarrow> Inl (err, w3)
                              | (None, w3) \<Rightarrow> Inr w3)))
                 else
                   let w1 = logIfErr ErrorLevel ''Could not write status: ''
                              (writeStatusFile os ag tempDir hostname w);
                       w2 = logIfErr ErrorLevel ''Could not write config check: ''
                              (writeConfigCheck os ag tempDir hostname w1);
                       w3 = logIfErr ErrorLevel ''Could not write tagger list: ''
                              (writeTaggerList os ag tempDir hostname w2)
                   in Inr w3) of
             Inl (err, w') \<Rightarrow> ((tempDir, hostname, Some err), Some permsInfos, w')
           | Inr w3 \<Rightarrow>
               let permsInfos1 =
                     (case osStat os (GetAuthTokenFilepath ag) of
                        Inr info \<Rightarrow> add os (GetAuthTokenFilepath ag) permsInfos
                      | Inl err \<Rightarrow> permsInfos);
                   st4 = logIfErrP ErrorLevel ''Could not write config: ''
                           (writeConfigFiles os ag tempDir hostname confSearchPaths
                              (Some permsInfos1, w3));
                   w5 = logIfErr ErrorLevel ''Could not write exp var: ''
                          (writeExpVar os ag tempDir hostname (snd st4));
                   w6 = (if system_probe_enabled ag
                         then logIfErr ErrorLevel ''Could not write system probe exp var stats: ''
                                (writeSystemProbeStats os ag tempDir hostname w5)
                         else w5);
                   w7 = logIfErr ErrorLevel ''Could not write diagnose: ''
                          (writeDiagnose os ag tempDir hostname w6);
                   w8 = logIfErr WarnLevel ''Could not write registry.json: ''
                          (writeRegistryJSON os ag tempDir hostname w7);
                   w9 = logIfErr ErrorLevel ''Could not write version-history.json: ''
                          (writeVersionHistory os ag tempDir hostname w8);
                   w10 = logIfErr ErrorLevel ''Could not write secrets: ''
                           (writeSecrets os ag tempDir hostname w9);
                   w11 = logIfErr ErrorLevel ''Could not write env vars: ''
                           (writeEnvvars ab tempDir hostname w10);
                   w12 = logIfErr ErrorLevel ''Could not write health check: ''
                           (writeHealth os ag tempDir hostname w11);
                   w13 = (if telemetry_enabled ag
                          then logIfErr ErrorLevel ''Could not collect telemetry metrics: ''
                                 (writeTelemetry os ag tempDir hostname w12)
                          else w12);
                   w14 = logIfErr ErrorLevel ''Could not collect go routine stack traces: ''
                           (writeStackTraces os ag tempDir hostname w13);
                   w15 = (if IsContainerized ag
                          then logIfErr ErrorLevel ''Could not write docker inspect: ''
                                 (writeDockerSelfInspect ab tempDir hostname w14)
                          else w14);
                   w16 = logIfErr ErrorLevel ''Could not write docker ps: ''
                           (writeDockerPs ab tempDir hostname w15);
                   w17 = logIfErr ErrorLevel ''Could not write typeperf data: ''
                           (writeTypeperfData ab tempDir hostname w16);
                   w18 = logIfErr ErrorLevel ''Could not write counter strings: ''
                           (writeCounterStrings ab tempDir hostname w17);
                   st19 = logIfErrP ErrorLevel ''Could not write logs: ''
                            (writeLogFiles os tempDir hostname logFilePath (fst st4, w18));
                   w20 = logIfErr ErrorLevel ''Could not write install_info: ''
                           (writeInstallInfo os ag tempDir hostname (snd st19));
                   w21 = logIfErr ErrorLevel ''Could not write permissions.log file: ''
                           (commit ab (fst st19) tempDir hostname w20)
               in ((tempDir, hostname, None), fst st19, w21)))"

text \<open>\<open>CreateArchive\<close>: the three search paths, in the order the map is iterated here.\<close>

definition CreateArchive ::
  "sys \<Rightarrow> agent \<Rightarrow> absent \<Rightarrow> bool \<Rightarrow> string \<Rightarrow> string \<Rightarrow> string \<Rightarrow> world
   \<Rightarrow> (string \<times> string \<times> error option) \<times> permissionsInfos option \<times> world" where
  "CreateArchive os ag ab local distPath pyChecksPath logFilePath w =
     (let confSearchPaths =
            [([], confd_path ag), (''dist'', Join [distPath, ''conf.d'']), (''checksd'', pyChecksPath)]
      in createArchive os ag ab local confSearchPaths logFilePath w)"

section \<open>Notions the properties are stated with\<close>

text \<open>\<open>containsStr s sub\<close>: \<open>sub\<close> occurs in \<open>s\<close> (\<open>strings.Contains\<close>).\<close>

fun containsStr :: "string \<Rightarrow> string \<Rightarrow> bool" where
  "containsStr [] sub = (sub = [])"
| "containsStr (c # cs) sub = (take (length sub) (c # cs) = sub \<or> containsStr cs sub)"

text \<open>
  \<open>noMatchStarts pre m\<close>: in the input \<open>pre @ m\<close>, the pattern for other services' API
  keys matches at no position of \<open>pre\<close>.
\<close>

fun noMatchStarts :: "string \<Rightarrow> string \<Rightarrow> bool" where
  "noMatchStarts [] m = True"
| "noMatchStarts (c # p) m =
     (matchHere otherAPIKeysRx (c # p @ m) = None \<and> noMatchStarts p m)"

text \<open>
  \<open>stable its p\<close>: whether the items match at the start of an input that begins with
  \<open>p\<close> followed by the letter a does not depend on what comes after that letter.
\<close>

definition stable :: "rxItem list \<Rightarrow> string \<Rightarrow> bool" where
  "stable its p =
     (\<forall>x y. (matchHere its (p @ CHR ''a'' # x) = None)
          = (matchHere its (p @ CHR ''a'' # y) = None))"

text \<open>
  \<open>canWrite os dst\<close>: the parent directories of \<open>dst\<close> can be made and \<open>dst\<close> opened
  and written. \<open>isYamlExt m\<close>: \<open>m\<close> is \<open>.yml\<close> or \<open>.yaml\<close> in any mix of upper and
  lower case.
\<close>

definition canWrite :: "sys \<Rightarrow> string \<Rightarrow> bool" where
  "canWrite os dst =
     (ensureParentDirsExist os dst = None \<and> osOpenFile os dst = None \<and> osWrite os dst = None)"



text \<open>
  \<open>apmPortOf\<close>: the port \<open>writeExpVar\<close> asks the trace agent on. \<open>pipeline os\<close>: what
  a writer of \<open>newRedactingWriter\<close> does to the bytes of one write.
\<close>

definition apmPortOf :: "sys \<Rightarrow> agent \<Rightarrow> string" where
  "apmPortOf os ag =
     (if osGetenv os ''DD_APM_RECEIVER_PORT'' \<noteq> [] then osGetenv os ''DD_APM_RECEIVER_PORT''
      else (case apm_receiver_port ag of Some p \<Rightarrow> p | None \<Rightarrow> ''8126''))"

definition pipeline :: "sys \<Rightarrow> string \<Rightarrow> string" where
  "pipeline os b = redact (CredentialsCleaner os) [otherAPIKeysReplacer] b"


definition stableRedacted :: "(world \<Rightarrow> bool) \<Rightarrow> bool" where
  "stableRedacted P =
     ((\<forall>f w. P w \<longrightarrow> P (createTruncate f ByRedactingWriter w)) \<and>
      (\<forall>f d w. P w \<longrightarrow> P (fileAppend f ByRedactingWriter d w)))"

definition stablePlain :: "(world \<Rightarrow> bool) \<Rightarrow> bool" where
  "stablePlain P =
     ((\<forall>f w. P w \<longrightarrow> P (createTruncate f ByOsFile w)) \<and>
      (\<forall>f w. P w \<longrightarrow> P (createKeep f ByOsFile w)) \<and>
      (\<forall>f d w. P w \<longrightarrow> P (fileAppend f ByOsFile d w)) \<and>
      (\<forall>f d w. P w \<longrightarrow> P (fileOverwrite f ByOsFile d w)))"

definition stableLog :: "(world \<Rightarrow> bool) \<Rightarrow> bool" where
  "stableLog P = (\<forall>lvl msg w. P w \<longrightarrow> P (logf lvl msg w))"









section \<open>A machine to run the collectors on\<close>

text \<open>
  \<open>quietSys\<close> is a machine on which every directory can be made and every file of the
  workspace written, with no source file to read, no path to stat and nothing listening
  on the loopback interface; \<open>quietAgent\<close> is an agent whose producers all answer;
  \<open>noAbsent\<close> lets the collectors that are parameters succeed without writing.
  The examples below change one field or another of them.
\<close>

definition noInfo :: filePermsInfo where
  "noInfo = \<lparr>mode = 420, owner = ''dd-agent'', group = ''dd-agent''\<rparr>"

definition emptyWorld :: world where
  "emptyWorld = \<lparr>files = Map.empty, logged = []\<rparr>"

definition quietSys :: sys where
  "quietSys =
     \<lparr>osMkdirAll = (\<lambda>_. None), osOpenFile = (\<lambda>_. None), osWrite = (\<lambda>_. None),
      osReadFile = (\<lambda>_. Inl (Err ''no such file or directory'')),
      osStat = (\<lambda>_. Inl (Err ''no such file or directory'')),
      osGetenv = (\<lambda>_. []), randRead = Inr [CHR 0x01, CHR 0xAB],
      ioTempDir = (\<lambda>p. Inr (''/tmp/'' @ p)),
      fpWalk = (\<lambda>_. []), fpAbs = (\<lambda>p. Inr (Clean p)),
      httpNewRequest = (\<lambda>_. None), httpDo = (\<lambda>_. Inl (Err ''connection refused'')),
      jsonIndent = (\<lambda>s. Inr s), jsonDecode = (\<lambda>s. Inr s), yamlMarshal = (\<lambda>s. Inr s),
      CredentialsCleaner = (\<lambda>b. b)\<rparr>"

definition quietAgent :: agent where
  "quietAgent =
     \<lparr>GetHostname = Inr ''web-1.example.org'', GetAndFormatStatus = Inr ''status'',
      GetConfigCheck = ''checks'', GetIPCAddress = Inr ''localhost'',
      DoGet = (\<lambda>_. Inr ''{}''), taggerListURL = [], RunAll = ''diagnose'',
      GetDebugInfo = Inr ''secrets'', GetReady = Inr ''healthy: []'',
      GetSystemProbeStats = Inr ''stats'', AllSettings = Inr ''settings'',
      expvars = [], GetAuthTokenFilepath = ''/etc/datadog-agent/auth_token'',
      ConfigFileUsed = [], FileUsedDir = ''/etc/datadog-agent'',
      confd_path = ''/etc/datadog-agent/conf.d'', logs_run_path = ''/opt/datadog-agent/run'',
      expvar_port = ''5000'', cmd_port = ''5001'', apm_receiver_port = None,
      system_probe_enabled = False, telemetry_enabled = False, IsContainerized = False\<rparr>"


text \<open>A response with a status other than 200 whose body arrives in two chunks.\<close>

definition busyResponse :: Response where
  "busyResponse =
     \<lparr>StatusCode = 503, Status = ''503 Service Unavailable'',
      BodyChunks = [''try later, api_key: '', ''abc''], BodyErr = None\<rparr>"





section \<open>Lemmas on the patterns\<close>

lemmas cls_defs = isSpace_def isKeyValueChar_def isAlnum_def inRange_def

lemma matchHere_star_only: "matchHere [ZeroOrMore p] s = Some (dropWhile p s)"
  by (induction s) auto

lemma matchHere_plus_only:
  "matchHere [OneOrMore p] (c # cs) = (if p c then Some (dropWhile p cs) else None)"
  by (simp add: matchHere_star_only)

lemma matchHere_length: "matchHere its s = Some r \<Longrightarrow> length r \<le> length s"
  by (induction its s arbitrary: r rule: matchHere.induct)
     (fastforce split: if_splits option.splits)+

lemma matchHere_One_shorter: "matchHere (One q # its) s = Some r \<Longrightarrow> length r < length s"
  by (cases s) (auto split: if_splits dest: matchHere_length)

lemma otherAPIKeys_consumes:
  "matchHere otherAPIKeysRx s = Some r \<Longrightarrow> length r < length s"
  unfolding otherAPIKeysRx_def lit_def by (simp) (erule matchHere_One_shorter)

lemma otherAPIKeys_first: "c \<noteq> CHR ''a'' \<Longrightarrow> matchHere otherAPIKeysRx (c # cs) = None"
  by (simp add: otherAPIKeysRx_def lit_def)

lemma otherAPIKeys_mask: "matchHere otherAPIKeysRx (''api_key: ********'' @ X) = None"
  by (simp add: otherAPIKeysRx_def lit_def cls_defs)

lemma rxMatch_mask:
  "rxMatch otherAPIKeysRx (''api_key: ********'' @ X) = rxMatch otherAPIKeysRx X"
  using otherAPIKeys_mask [of X] by (simp add: otherAPIKeys_first)

lemma stable_One:
  assumes "\<And>p. stable its p" and "\<not> q CHR ''a''"
  shows "stable (One q # its) p"
  using assms by (cases p) (auto simp: stable_def)

lemma stable_One_first:
  assumes "\<And>p. stable its p" and "p \<noteq> []"
  shows "stable (One q # its) p"
  using assms by (cases p) (auto simp: stable_def)


lemma matchHere_star_One:
  "(\<And>c. p c \<Longrightarrow> \<not> q c) \<Longrightarrow>
   matchHere (ZeroOrMore p # One q # its) s = matchHere (One q # its) (dropWhile p s)"
  by (induction s) (auto split: option.splits)

lemma matchHere_star_Plus:
  "(\<And>c. p c \<Longrightarrow> \<not> q c) \<Longrightarrow>
   matchHere (ZeroOrMore p # OneOrMore q # its) s = matchHere (OneOrMore q # its) (dropWhile p s)"
  by (induction s) (auto split: option.splits)

lemma dropWhile_app_a: "\<not> p a \<Longrightarrow> dropWhile p (xs @ a # x) = dropWhile p xs @ a # x"
  by (induction xs) auto

lemma stable_star_One:
  assumes "\<And>p. stable (One q # its) p" and "\<And>c. S c \<Longrightarrow> \<not> q c" and "\<not> S CHR ''a''"
  shows "stable (ZeroOrMore S # One q # its) p"
  using assms(1) [of "dropWhile S p"] assms(2,3)
  by (simp add: stable_def matchHere_star_One dropWhile_app_a)

lemma stable_star_Plus:
  assumes "\<And>p. stable (OneOrMore q # its) p" and "\<And>c. S c \<Longrightarrow> \<not> q c" and "\<not> S CHR ''a''"
  shows "stable (ZeroOrMore S # OneOrMore q # its) p"
  using assms(1) [of "dropWhile S p"] assms(2,3)
  by (simp add: stable_def matchHere_star_Plus dropWhile_app_a)

lemma stable_Plus_last: "q CHR ''a'' \<Longrightarrow> stable [OneOrMore q] p"
  by (cases p) (auto simp: stable_def matchHere_star_only)

lemma space_not_value: "isSpace c \<Longrightarrow> \<not> isKeyValueChar c"
  by (auto simp: cls_defs)

lemma stable_otherAPIKeys: "p \<noteq> [] \<Longrightarrow> stable otherAPIKeysRx p"
  unfolding otherAPIKeysRx_def lit_def
  apply simp
  apply (rule stable_One_first)
   apply (intro stable_One stable_star_One stable_star_Plus stable_Plus_last)
  apply (auto simp: cls_defs)
  done

lemma apply_otherAPIKeys_Nil: "applyReplacer otherAPIKeysReplacer [] = []"
  by (simp add: applyReplacer_def)

lemma apply_otherAPIKeys_Cons:
  "applyReplacer otherAPIKeysReplacer (c # cs) =
     (case matchHere otherAPIKeysRx (c # cs) of
        Some rest \<Rightarrow> ''api_key: ********'' @ applyReplacer otherAPIKeysReplacer rest
      | None \<Rightarrow> c # applyReplacer otherAPIKeysReplacer cs)"
  by (auto simp: applyReplacer_def otherAPIKeysReplacer_def split: option.splits
           dest: otherAPIKeys_consumes)

lemma apply_otherAPIKeys_sim:
  "applyReplacer otherAPIKeysReplacer s = s \<or>
   (\<exists>p x y. s = p @ CHR ''a'' # x \<and> applyReplacer otherAPIKeysReplacer s = p @ CHR ''a'' # y)"
proof (induction s)
  case Nil
  show ?case by (simp add: apply_otherAPIKeys_Nil)
next
  case (Cons c cs)
  show ?case
  proof (cases "matchHere otherAPIKeysRx (c # cs)")
    case None
    then have eq: "applyReplacer otherAPIKeysReplacer (c # cs) = c # applyReplacer otherAPIKeysReplacer cs"
      by (simp add: apply_otherAPIKeys_Cons)
    from Cons show ?thesis
    proof
      assume "applyReplacer otherAPIKeysReplacer cs = cs"
      with eq show ?thesis by simp
    next
      assume "\<exists>p x y. cs = p @ CHR ''a'' # x \<and> applyReplacer otherAPIKeysReplacer cs = p @ CHR ''a'' # y"
      then obtain p x y where "cs = p @ CHR ''a'' # x"
        "applyReplacer otherAPIKeysReplacer cs = p @ CHR ''a'' # y" by blast
      with eq have "c # cs = (c # p) @ CHR ''a'' # x \<and>
        applyReplacer otherAPIKeysReplacer (c # cs) = (c # p) @ CHR ''a'' # y" by simp
      then show ?thesis by blast
    qed
  next
    case (Some rest)
    then have c: "c = CHR ''a''" using otherAPIKeys_first [of c cs] by auto
    from Some have "applyReplacer otherAPIKeysReplacer (c # cs) =
       [] @ CHR ''a'' # (''pi_key: ********'' @ applyReplacer otherAPIKeysReplacer rest)"
      by (simp add: apply_otherAPIKeys_Cons)
    moreover have "c # cs = [] @ CHR ''a'' # cs" using c by simp
    ultimately show ?thesis by blast
  qed
qed

lemma no_match_preserved:
  assumes "matchHere otherAPIKeysRx (c # cs) = None"
  shows "matchHere otherAPIKeysRx (c # applyReplacer otherAPIKeysReplacer cs) = None"
proof -
  from apply_otherAPIKeys_sim [of cs] show ?thesis
  proof
    assume "applyReplacer otherAPIKeysReplacer cs = cs"
    with assms show ?thesis by simp
  next
    assume "\<exists>p x y. cs = p @ CHR ''a'' # x \<and> applyReplacer otherAPIKeysReplacer cs = p @ CHR ''a'' # y"
    then obtain p x y where cs: "cs = p @ CHR ''a'' # x"
      and r: "applyReplacer otherAPIKeysReplacer cs = p @ CHR ''a'' # y" by blast
    have "stable otherAPIKeysRx (c # p)" by (rule stable_otherAPIKeys) simp
    then have "(matchHere otherAPIKeysRx ((c # p) @ CHR ''a'' # x) = None)
             = (matchHere otherAPIKeysRx ((c # p) @ CHR ''a'' # y) = None)"
      unfolding stable_def by blast
    with assms cs r show ?thesis by simp
  qed
qed

lemma no_match_after: "\<not> rxMatch otherAPIKeysRx (applyReplacer otherAPIKeysReplacer s)"
proof (induction s rule: length_induct)
  case (1 s)
  show ?case
  proof (cases s)
    case Nil
    then show ?thesis by (simp add: apply_otherAPIKeys_Nil otherAPIKeysRx_def lit_def)
  next
    case (Cons c cs)
    show ?thesis
    proof (cases "matchHere otherAPIKeysRx (c # cs)")
      case None
      have "length cs < length s" using Cons by simp
      with 1 have "\<not> rxMatch otherAPIKeysRx (applyReplacer otherAPIKeysReplacer cs)" by blast
      with None no_match_preserved [OF None] Cons show ?thesis
        by (simp add: apply_otherAPIKeys_Cons)
    next
      case (Some rest)
      then have "length rest < length s" using Cons otherAPIKeys_consumes by blast
      with 1 have ih: "\<not> rxMatch otherAPIKeysRx (applyReplacer otherAPIKeysReplacer rest)" by blast
      have eq: "applyReplacer otherAPIKeysReplacer (c # cs) =
                ''api_key: ********'' @ applyReplacer otherAPIKeysReplacer rest"
        using Some by (simp add: apply_otherAPIKeys_Cons)
      show ?thesis unfolding Cons eq rxMatch_mask by (rule ih)
    qed
  qed
qed

lemma no_match_unchanged:
  "\<not> rxMatch otherAPIKeysRx s \<Longrightarrow> applyReplacer otherAPIKeysReplacer s = s"
  by (induction s) (auto simp: apply_otherAPIKeys_Nil apply_otherAPIKeys_Cons)

lemma otherAPIKeys_idem:
  "applyReplacer otherAPIKeysReplacer (applyReplacer otherAPIKeysReplacer s)
   = applyReplacer otherAPIKeysReplacer s"
  by (rule no_match_unchanged) (rule no_match_after)

lemma match_gives_mask:
  "rxMatch otherAPIKeysRx s \<Longrightarrow>
   \<exists>pre post. applyReplacer otherAPIKeysReplacer s = pre @ ''api_key: ********'' @ post"
proof (induction s)
  case Nil
  then show ?case by (simp add: otherAPIKeysRx_def lit_def)
next
  case (Cons c cs)
  show ?case
  proof (cases "matchHere otherAPIKeysRx (c # cs)")
    case None
    with Cons obtain pre post where
      "applyReplacer otherAPIKeysReplacer cs = pre @ ''api_key: ********'' @ post" by auto
    with None have "applyReplacer otherAPIKeysReplacer (c # cs) = (c # pre) @ ''api_key: ********'' @ post"
      by (simp add: apply_otherAPIKeys_Cons)
    then show ?thesis by blast
  next
    case (Some rest)
    then have "applyReplacer otherAPIKeysReplacer (c # cs) =
      [] @ ''api_key: ********'' @ applyReplacer otherAPIKeysReplacer rest"
      by (simp add: apply_otherAPIKeys_Cons)
    then show ?thesis by blast
  qed
qed

lemma containsStr_iff: "containsStr s sub = (\<exists>pre post. s = pre @ sub @ post)"
proof (induction s)
  case Nil
  then show ?case by auto
next
  case (Cons c cs)
  show ?case
  proof
    assume "containsStr (c # cs) sub"
    then consider "take (length sub) (c # cs) = sub" | "containsStr cs sub" by auto
    then show "\<exists>pre post. c # cs = pre @ sub @ post"
    proof cases
      case 1
      then have "c # cs = [] @ sub @ drop (length sub) (c # cs)"
        by (metis append_Nil append_take_drop_id)
      then show ?thesis by blast
    next
      case 2
      with Cons obtain pre post where "cs = pre @ sub @ post" by auto
      then have "c # cs = (c # pre) @ sub @ post" by simp
      then show ?thesis by blast
    qed
  next
    assume "\<exists>pre post. c # cs = pre @ sub @ post"
    then obtain pre post where e: "c # cs = pre @ sub @ post" by blast
    show "containsStr (c # cs) sub"
    proof (cases pre)
      case Nil
      with e have "take (length sub) (c # cs) = sub" by simp
      then show ?thesis by simp
    next
      case (Cons a pre')
      with e have "cs = pre' @ sub @ post" by simp
      with Cons.IH show ?thesis by auto
    qed
  qed
qed

lemma dropWhile_all: "\<forall>x\<in>set ws. p x \<Longrightarrow> dropWhile p (ws @ r) = dropWhile p r"
  by (induction ws) auto

lemma occurrence_matches:
  assumes ws1: "\<forall>x\<in>set ws1. isSpace x" and ws2: "\<forall>x\<in>set ws2. isSpace x"
    and v: "v \<noteq> []" "\<forall>x\<in>set v. isKeyValueChar x"
    and post: "post = [] \<or> \<not> isKeyValueChar (hd post)"
  shows "matchHere otherAPIKeysRx (''api_key'' @ ws1 @ CHR '':'' # ws2 @ v @ post) = Some post"
proof -
  obtain k v' where kv: "v = k # v'" using v(1) by (cases v) auto
  have k: "isKeyValueChar k" and v': "\<forall>x\<in>set v'. isKeyValueChar x" using v(2) kv by auto
  have ns: "\<not> isSpace k" using k space_not_value by blast
  have dp: "dropWhile isKeyValueChar post = post" using post by (cases post) auto
  have a: "matchHere [OneOrMore isKeyValueChar] (v @ post) = Some post"
    using k v' dp by (simp add: kv matchHere_star_only dropWhile_all)
  have b: "matchHere [ZeroOrMore isSpace, OneOrMore isKeyValueChar] (ws2 @ v @ post) = Some post"
    using a ws2 ns space_not_value
    by (simp add: matchHere_star_Plus dropWhile_all kv del: matchHere.simps)
  have c: "matchHere [lit CHR '':'', ZeroOrMore isSpace, OneOrMore isKeyValueChar]
             (CHR '':'' # ws2 @ v @ post) = Some post"
    using b by (simp add: lit_def)
  have nc: "\<not> isSpace CHR '':''" by (simp add: isSpace_def)
  have d: "matchHere [ZeroOrMore isSpace, lit CHR '':'', ZeroOrMore isSpace, OneOrMore isKeyValueChar]
             (ws1 @ CHR '':'' # ws2 @ v @ post) = Some post"
    using c ws1 nc unfolding lit_def
    by (subst matchHere_star_One) (auto simp: dropWhile_all isSpace_def simp del: matchHere.simps)
  show ?thesis using d by (simp add: otherAPIKeysRx_def lit_def)
qed

lemma apply_after_prefix:
  "noMatchStarts pre m \<Longrightarrow>
   applyReplacer otherAPIKeysReplacer (pre @ m) = pre @ applyReplacer otherAPIKeysReplacer m"
  by (induction pre) (auto simp: apply_otherAPIKeys_Cons)

lemma rxMatch_append: "rxMatch rx m \<Longrightarrow> rxMatch rx (pre @ m)"
  by (induction pre) auto

lemma rxMatch_here: "matchHere rx m = Some r \<Longrightarrow> rxMatch rx m"
  by (cases m) auto


lemma replaceAllFunc_plus_set:
  "set (replaceAllFunc [OneOrMore p] (\<lambda>_. r) s) \<subseteq> set r \<union> {x. \<not> p x}"
proof (induction s rule: length_induct)
  case (1 s)
  show ?case
  proof (cases s)
    case Nil
    then show ?thesis by simp
  next
    case (Cons c cs)
    have le: "length (dropWhile p cs) < length s"
      using Cons by (simp add: length_dropWhile_le le_imp_less_Suc)
    have cs: "length cs < length s" using Cons by simp
    from 1 le have ih1:
      "set (replaceAllFunc [OneOrMore p] (\<lambda>_. r) (dropWhile p cs)) \<subseteq> set r \<union> {x. \<not> p x}"
      by blast
    from 1 cs have ih2:
      "set (replaceAllFunc [OneOrMore p] (\<lambda>_. r) cs) \<subseteq> set r \<union> {x. \<not> p x}"
      by blast
    show ?thesis
      unfolding Cons replaceAllFunc.simps matchHere_plus_only
      using ih1 ih2 le Cons by auto
  qed
qed

lemma parentLoop_chain:
  "\<exists>n. parentLoop os p m = fold (add os) (map (\<lambda>i. (Dir ^^ i) p) [0..<n]) m
       \<and> (\<forall>i<n. (Dir ^^ i) p \<noteq> ''.'')
       \<and> (\<forall>i. Suc i < n \<longrightarrow> length ((Dir ^^ Suc i) p) \<noteq> length ((Dir ^^ i) p))
       \<and> ((Dir ^^ n) p = ''.'' \<or> (0 < n \<and> length ((Dir ^^ n) p) = length ((Dir ^^ (n - 1)) p)))"
proof (induction os p m rule: parentLoop.induct)
  case (1 os parent permsInfos)
  show ?case
  proof (cases "parent = ''.''")
    case True
    then have "parentLoop os parent permsInfos = permsInfos" by (simp add: parentLoop.simps)
    with True show ?thesis by (intro exI [of _ 0]) simp
  next
    case False
    show ?thesis
    proof (cases "length (Dir parent) = length parent")
      case True
      with False have "parentLoop os parent permsInfos = add os parent permsInfos"
        by (simp add: parentLoop.simps)
      with True False show ?thesis by (intro exI [of _ 1]) simp
    next
      case neq: False
      from 1 [OF False neq] obtain n where
        eq: "parentLoop os (Dir parent) (add os parent permsInfos) =
             fold (add os) (map (\<lambda>i. (Dir ^^ i) (Dir parent)) [0..<n]) (add os parent permsInfos)"
        and nd: "\<forall>i<n. (Dir ^^ i) (Dir parent) \<noteq> ''.''"
        and ln: "\<forall>i. Suc i < n \<longrightarrow>
                   length ((Dir ^^ Suc i) (Dir parent)) \<noteq> length ((Dir ^^ i) (Dir parent))"
        and st: "(Dir ^^ n) (Dir parent) = ''.'' \<or>
                 (0 < n \<and> length ((Dir ^^ n) (Dir parent)) = length ((Dir ^^ (n - 1)) (Dir parent)))"
        by blast
      have sh: "\<And>i. (Dir ^^ i) (Dir parent) = (Dir ^^ Suc i) parent"
        by (simp add: funpow_swap1)
      have a: "parentLoop os parent permsInfos =
               fold (add os) (map (\<lambda>i. (Dir ^^ i) parent) [0..<Suc n]) permsInfos"
        using False neq eq unfolding sh
        by (subst parentLoop.simps) (simp add: map_upt_Suc del: upt_Suc funpow.simps)
      have b: "\<forall>i<Suc n. (Dir ^^ i) parent \<noteq> ''.''"
      proof (intro allI impI)
        fix i assume "i < Suc n"
        then show "(Dir ^^ i) parent \<noteq> ''.''"
          using nd False unfolding sh by (cases i) auto
      qed
      have c: "\<forall>i. Suc i < Suc n \<longrightarrow> length ((Dir ^^ Suc i) parent) \<noteq> length ((Dir ^^ i) parent)"
      proof (intro allI impI)
        fix i assume "Suc i < Suc n"
        then show "length ((Dir ^^ Suc i) parent) \<noteq> length ((Dir ^^ i) parent)"
          using ln neq unfolding sh by (cases i) auto
      qed
      have d: "(Dir ^^ Suc n) parent = ''.'' \<or>
               (0 < Suc n \<and> length ((Dir ^^ Suc n) parent) = length ((Dir ^^ (Suc n - 1)) parent))"
        using st unfolding sh by (cases n) auto
      from a b c d show ?thesis by blast
    qed
  qed
qed

section \<open>Lemmas on the configuration walk\<close>

lemma files_logf [simp]: "files (logf lvl msg w) = files w"
  by (simp add: logf_def)

lemma walkConfigFile_skip:
  "\<not> IsDir f \<Longrightarrow> Ext (Name f) = ''.example'' \<or>
     (\<not> rxMatch cnfFileExtRx (getFirstSuffix (Name f)) \<and> \<not> rxMatch cnfFileExtRx (Ext (Name f)))
   \<Longrightarrow> walkConfigFilePathsFn os tempDir hostname prefix filePath src (Some f) st = (None, st)"
  by (auto simp: walkConfigFilePathsFn_def Let_def)

lemma newRedactingWriter_ok:
  "osOpenFile os f = None \<Longrightarrow>
   newRedactingWriter os f w =
     (Inr \<lparr>target = f, replacers = [otherAPIKeysReplacer]\<rparr>, createTruncate f ByRedactingWriter w)"
  by (simp add: newRedactingWriter_def NewRedactingWriter_def RegisterReplacer_def)

lemma rwWrite_ok:
  "osWrite os (target wr) = None \<Longrightarrow>
   rwWrite os wr p w =
     (None, fileAppend (target wr) ByRedactingWriter (redact (CredentialsCleaner os) (replacers wr) p) w)"
  by (simp add: rwWrite_def)

lemma files_append_after_create:
  "files (fileAppend f by bytes (createTruncate f by' w)) f
     = Some \<lparr>writtenBy = by', content = bytes\<rparr>"
  by (simp add: fileAppend_def createTruncate_def)

lemma walkConfigFile_copy:
  assumes "\<not> IsDir f" "Ext (Name f) \<noteq> ''.example''"
    and "rxMatch cnfFileExtRx (getFirstSuffix (Name f)) \<or> rxMatch cnfFileExtRx (Ext (Name f))"
    and "dst = Join [tempDir, hostname, ''etc'', ''confd'', prefix, replaceFirst src filePath []]"
    and "canWrite os dst" and "osReadFile os src = Inr data"
  shows "fst (walkConfigFilePathsFn os tempDir hostname prefix filePath src (Some f) st) = None \<and>
         files (snd (snd (walkConfigFilePathsFn os tempDir hostname prefix filePath src (Some f) st))) dst
           = Some \<lparr>writtenBy = ByRedactingWriter,
                   content = redact (CredentialsCleaner os) [otherAPIKeysReplacer] data\<rparr>"
proof -
  have o: "osOpenFile os dst = None" and m: "ensureParentDirsExist os dst = None"
    and wr: "osWrite os dst = None"
    using assms(5) by (simp_all add: canWrite_def)
  show ?thesis
    using assms(1-3) assms(4) [symmetric] o m wr assms(6)
    by (cases "fst st"; cases "fpAbs os filePath")
       (simp_all add: walkConfigFilePathsFn_def Let_def newRedactingWriter_ok
                 WriteFromFile_def rwWrite_ok files_append_after_create)
qed

lemma ext_examples:
  "Ext ''foo.yaml'' = ''.yaml''" "getFirstSuffix ''foo.yaml'' = []"
  "Ext ''foo.yaml.bak'' = ''.bak''" "getFirstSuffix ''foo.yaml.bak'' = ''.yaml''"
  "Ext ''name.bak'' = ''.bak''" "getFirstSuffix ''name.bak'' = []"
  "Ext ''foo.yaml.example'' = ''.example''"
  "Ext ''foo.yaml2'' = ''.yaml2''" "Ext ''foo.YML-old'' = ''.YML-old''"
  by (simp_all add: Ext_def getFirstSuffix_def TrimSuffix_def HasSuffix_def)

lemma match_examples:
  "rxMatch cnfFileExtRx ''.yaml''" "\<not> rxMatch cnfFileExtRx ''.bak''" "\<not> rxMatch cnfFileExtRx []"
  "rxMatch cnfFileExtRx ''.yaml2''" "rxMatch cnfFileExtRx ''.YML-old''"
  by (simp_all add: cnfFileExtRx_def lit_def)





lemma matchHere_One_iff:
  "matchHere (One p # its) s \<noteq> None \<longleftrightarrow> (\<exists>c cs. s = c # cs \<and> p c \<and> matchHere its cs \<noteq> None)"
  by (cases s) auto

lemma matchHere_ZeroOrOne_iff:
  "matchHere (ZeroOrOne p # its) s \<noteq> None \<longleftrightarrow>
     (\<exists>c cs. s = c # cs \<and> p c \<and> matchHere its cs \<noteq> None) \<or> matchHere its s \<noteq> None"
  by (cases s) (auto split: option.splits)









section \<open>Lemmas on the HTTP collectors\<close>

lemma files_createTruncate:
  "files (createTruncate f by w) = (files w)(f \<mapsto> \<lparr>writtenBy = by, content = []\<rparr>)"
  by (simp add: createTruncate_def)

lemma copyChunks_ok:
  assumes "osWrite os (target wr) = None"
    and "files w (target wr) = Some \<lparr>writtenBy = b, content = c0\<rparr>"
  shows "fst (copyChunks os wr chunks w) = None \<and>
         files (snd (copyChunks os wr chunks w)) (target wr)
           = Some \<lparr>writtenBy = b,
                   content = c0 @ concat (map (redact (CredentialsCleaner os) (replacers wr)) chunks)\<rparr>"
  using assms(2)
proof (induction chunks arbitrary: w c0)
  case Nil
  then show ?case by simp
next
  case (Cons c cs)
  let ?w1 = "fileAppend (target wr) ByRedactingWriter
               (redact (CredentialsCleaner os) (replacers wr) c) w"
  have w1: "files ?w1 (target wr)
            = Some \<lparr>writtenBy = b, content = c0 @ redact (CredentialsCleaner os) (replacers wr) c\<rparr>"
    using Cons.prems by (simp add: fileAppend_def)
  have s: "copyChunks os wr (c # cs) w = copyChunks os wr cs ?w1"
    using assms(1) by (simp add: rwWrite_def)
  from Cons.IH [OF w1] show ?case unfolding s by simp
qed

lemma writeHTTPCallContent_transport:
  "httpNewRequest os url = None \<Longrightarrow> httpDo os url = Inl err \<Longrightarrow>
   writeHTTPCallContent os tempDir hostname filename url w = (Some err, w)"
  by (simp add: writeHTTPCallContent_def Let_def)

lemma writeHTTPCallContent_body:
  assumes "httpNewRequest os url = None" "httpDo os url = Inr resp"
    and "canWrite os (Join [tempDir, hostname, filename])"
  shows "fst (writeHTTPCallContent os tempDir hostname filename url w) = BodyErr resp \<and>
         files (snd (writeHTTPCallContent os tempDir hostname filename url w))
               (Join [tempDir, hostname, filename])
           = Some \<lparr>writtenBy = ByRedactingWriter,
                   content = concat (map (pipeline os) (BodyChunks resp))\<rparr>"
proof -
  let ?f = "Join [tempDir, hostname, filename]"
  let ?wr = "\<lparr>target = ?f, replacers = [otherAPIKeysReplacer]\<rparr>"
  let ?w1 = "createTruncate ?f ByRedactingWriter w"
  have o: "osOpenFile os ?f = None" and m: "ensureParentDirsExist os ?f = None"
    and wr: "osWrite os ?f = None"
    using assms(3) by (simp_all add: canWrite_def)
  have e: "writeHTTPCallContent os tempDir hostname filename url w = ioCopyBody os ?wr resp ?w1"
    using assms(1,2) o m by (simp add: writeHTTPCallContent_def newRedactingWriter_ok Let_def)
  have f1: "files ?w1 (target ?wr) = Some \<lparr>writtenBy = ByRedactingWriter, content = []\<rparr>"
    by (simp add: files_createTruncate)
  have t: "osWrite os (target ?wr) = None" using wr by simp
  from copyChunks_ok [OF t f1, of "BodyChunks resp"]
  have c: "fst (copyChunks os ?wr (BodyChunks resp) ?w1) = None"
    "files (snd (copyChunks os ?wr (BodyChunks resp) ?w1)) ?f
       = Some \<lparr>writtenBy = ByRedactingWriter,
               content = concat (map (redact (CredentialsCleaner os) [otherAPIKeysReplacer])
                                   (BodyChunks resp))\<rparr>"
    by simp_all
  obtain e' w' where cw: "copyChunks os ?wr (BodyChunks resp) ?w1 = (e', w')"
    by (cases "copyChunks os ?wr (BodyChunks resp) ?w1")
  with c have "e' = None" by simp
  with cw c(2) show ?thesis unfolding e ioCopyBody_def pipeline_def
    by (simp add: comp_def)
qed

lemma writeExpVar_transport:
  assumes "writeExpVarLoop os tempDir hostname (expvars ag) w = (None, w0)"
    and "f = Join [tempDir, hostname, ''expvar'', ''trace-agent'']"
    and "osOpenFile os f = None" "osWrite os f = None"
    and "httpDo os (''http://127.0.0.1:'' @ apmPortOf os ag @ ''/debug/vars'') = Inl err"
  shows "fst (writeExpVar os ag tempDir hostname w) = None \<and>
         files (snd (writeExpVar os ag tempDir hostname w)) f
           = Some \<lparr>writtenBy = ByRedactingWriter,
                   content = pipeline os (''Error retrieving vars: '' @ errMsg err)\<rparr>"
  using assms
  by (simp add: writeExpVar_def Let_def apmPortOf_def newRedactingWriter_ok rwWrite_ok
                files_append_after_create pipeline_def split: option.splits)

lemma writeExpVar_status:
  assumes "writeExpVarLoop os tempDir hostname (expvars ag) w = (None, w0)"
    and "f = Join [tempDir, hostname, ''expvar'', ''trace-agent'']"
    and "osOpenFile os f = None" "osWrite os f = None"
    and "httpDo os (''http://127.0.0.1:'' @ apmPortOf os ag @ ''/debug/vars'') = Inr resp"
    and "StatusCode resp \<noteq> 200" "ReadAll resp = Inr slurp"
  shows "fst (writeExpVar os ag tempDir hostname w) = None \<and>
         files (snd (writeExpVar os ag tempDir hostname w)) f
           = Some \<lparr>writtenBy = ByRedactingWriter,
                   content = pipeline os (''Got response '' @ Status resp
                       @ '' from /debug/vars:'' @ [CHR 0x0A] @ slurp)\<rparr>"
  using assms
  by (simp add: writeExpVar_def Let_def apmPortOf_def newRedactingWriter_ok rwWrite_ok
                files_append_after_create pipeline_def split: option.splits)

lemma writeTaggerList_get_error:
  assumes "f = Join [tempDir, hostname, ''tagger-list.json'']"
    and "ensureParentDirsExist os f = None" "osOpenFile os f = None"
    and "GetIPCAddress ag = Inr ipcAddress"
    and "DoGet ag (if taggerListURL ag = []
                   then ''https://'' @ ipcAddress @ '':'' @ cmd_port ag @ ''/agent/tagger-list''
                   else taggerListURL ag) = Inl err"
  shows "writeTaggerList os ag tempDir hostname w
           = (Some err, createTruncate f ByRedactingWriter w)"
  using assms
  by (simp add: writeTaggerList_def Let_def newRedactingWriter_ok)

section \<open>What the collectors keep\<close>

lemma nrw_keeps:
  "stableRedacted P \<Longrightarrow> P w \<Longrightarrow> newRedactingWriter os f w = (r, w1) \<Longrightarrow> P w1"
  by (auto simp: newRedactingWriter_def NewRedactingWriter_def stableRedacted_def
           split: option.splits)

lemma rw_keeps:
  "stableRedacted P \<Longrightarrow> P w \<Longrightarrow> rwWrite os wr d w = (e, w1) \<Longrightarrow> P w1"
  by (auto simp: rwWrite_def stableRedacted_def split: option.splits)

lemma rw_keeps_snd:
  "stableRedacted P \<Longrightarrow> P w \<Longrightarrow> P (snd (rwWrite os wr d w))"
  by (cases "rwWrite os wr d w") (auto dest: rw_keeps)

lemma wff_keeps_snd:
  "stableRedacted P \<Longrightarrow> P w \<Longrightarrow> P (snd (WriteFromFile os wr src w))"
  by (auto simp: WriteFromFile_def rw_keeps_snd split: sum.splits)

lemma wff_keeps:
  "stableRedacted P \<Longrightarrow> P w \<Longrightarrow> WriteFromFile os wr src w = (e, w1) \<Longrightarrow> P w1"
  using wff_keeps_snd [of P w os wr src] by simp



lemma nrw_then:
  assumes "stableRedacted P" "P w" "\<And>wr w1. P w1 \<Longrightarrow> P (snd (k wr w1))"
  shows "P (snd (case newRedactingWriter os f w of
                   (Inl err, w1) \<Rightarrow> (Some err, w1)
                 | (Inr wr, w1) \<Rightarrow> k wr w1))"
proof -
  obtain r w1 where n: "newRedactingWriter os f w = (r, w1)"
    by (cases "newRedactingWriter os f w")
  have "P w1" using assms(1,2) n by (rule nrw_keeps)
  with assms(3) n show ?thesis by (cases r) simp_all
qed

lemma writeStatusFileLocal_keeps:
  "stableRedacted P \<Longrightarrow> P w \<Longrightarrow> P (snd (writeStatusFileLocal os tempDir hostname data w))"
  by (auto simp: writeStatusFileLocal_def Let_def split: option.splits sum.splits
           intro!: nrw_then [of P] rw_keeps_snd [of P])

lemma writeStatusFile_keeps:
  "stableRedacted P \<Longrightarrow> P w \<Longrightarrow> P (snd (writeStatusFile os ag tempDir hostname w))"
  by (auto simp: writeStatusFile_def split: sum.splits intro!: writeStatusFileLocal_keeps [of P])
































lemma logged_stable:
  "stableRedacted (\<lambda>w. x \<in> set (logged w))" "stablePlain (\<lambda>w. x \<in> set (logged w))"
  "stableLog (\<lambda>w. x \<in> set (logged w))"
  by (auto simp: stableRedacted_def stablePlain_def stableLog_def createTruncate_def
                 fileAppend_def createKeep_def fileOverwrite_def logf_def
           split: option.splits)

section \<open>What the collectors leave in a file\<close>








section \<open>The log of a run\<close>

lemma logIfErr_keep:
  "x \<in> set (logged (snd r)) \<Longrightarrow> x \<in> set (logged (logIfErr lvl msg r))"
  by (cases r; cases "fst r") (simp_all add: logIfErr_def logf_def)






lemma writeStatusFile_log:
  "x \<in> set (logged w) \<Longrightarrow> x \<in> set (logged (logIfErr lvl msg (writeStatusFile os ag t h w)))"
  by (rule logIfErr_keep) (rule writeStatusFile_keeps [of "\<lambda>w. x \<in> set (logged w)", OF logged_stable(1)])






































section \<open>What the tracker records\<close>






























section \<open>The sanitized directory name\<close>

text \<open>
  C8. For every hostname, the name \<open>cleanDirectoryName\<close> returns is at most 32 bytes
  long and every byte of it is a letter, a digit, an underscore or a hyphen.
\<close>

theorem cleanDirectoryName_bounded:
  "length (cleanDirectoryName name) \<le> 32 \<and>
   (\<forall>c \<in> set (cleanDirectoryName name). isDirNameChar c)"
proof -
  have "set (replaceAllFunc directoryNameFilter (\<lambda>_. ''_'') name) \<subseteq> {x. isDirNameChar x}"
    using replaceAllFunc_plus_set [of "\<lambda>x. \<not> isDirNameChar x" "''_''" name]
    by (auto simp: directoryNameFilter_def isDirNameChar_def)
  then have "\<forall>c \<in> set (cleanDirectoryName name). isDirNameChar c"
    by (auto simp: cleanDirectoryName_def Let_def dest: in_set_takeD)
  moreover have "length (cleanDirectoryName name) \<le> 32"
    by (simp add: cleanDirectoryName_def Let_def directoryNameMaxSize_def)
  ultimately show ?thesis by simp
qed

theorem cleanDirectoryName_bounded_witness:
  "cleanDirectoryName ''ip-10.0.0.1 (prod)/eu-west-1/very-long-host-name''
     = ''ip-10_0_0_1_prod_eu-west-1_very-'' \<and>
   length (cleanDirectoryName ''ip-10.0.0.1 (prod)/eu-west-1/very-long-host-name'') \<le> 32 \<and>
   list_all isDirNameChar (cleanDirectoryName ''ip-10.0.0.1 (prod)/eu-west-1/very-long-host-name'')"
proof -
  have a: "length (cleanDirectoryName ''ip-10.0.0.1 (prod)/eu-west-1/very-long-host-name'') \<le> 32 \<and>
        (\<forall>c \<in> set (cleanDirectoryName ''ip-10.0.0.1 (prod)/eu-west-1/very-long-host-name'').
           isDirNameChar c)"
    by (rule cleanDirectoryName_bounded)
  have b: "cleanDirectoryName ''ip-10.0.0.1 (prod)/eu-west-1/very-long-host-name''
             = ''ip-10_0_0_1_prod_eu-west-1_very-''"
    by code_simp
  from a b show ?thesis unfolding list_all_iff by blast
qed

section \<open>The replacer for other services' API keys, applied twice\<close>

text \<open>
  C4. Applying the API-key replacer to text it has already redacted changes nothing, and
  so does applying the replacers registered on a writer that \<open>newRedactingWriter\<close>
  returns: redaction by the registered replacers is idempotent.
\<close>

theorem registered_replacers_idempotent:
  "applyReplacer otherAPIKeysReplacer (applyReplacer otherAPIKeysReplacer b)
     = applyReplacer otherAPIKeysReplacer b \<and>
   (newRedactingWriter os f w = (Inr wr, w') \<longrightarrow>
      applyReplacers (replacers wr) (applyReplacers (replacers wr) b)
        = applyReplacers (replacers wr) b)"
proof -
  have "newRedactingWriter os f w = (Inr wr, w') \<Longrightarrow> replacers wr = [otherAPIKeysReplacer]"
    by (auto simp: newRedactingWriter_def NewRedactingWriter_def RegisterReplacer_def
             split: option.splits)
  then show ?thesis
    by (auto simp: applyReplacers_def otherAPIKeys_idem)
qed

theorem registered_replacers_idempotent_witness:
  "applyReplacers [otherAPIKeysReplacer]
     (applyReplacers [otherAPIKeysReplacer] ''powerdns: api_key: Zm9vYmFy'')
   = applyReplacers [otherAPIKeysReplacer] ''powerdns: api_key: Zm9vYmFy'' \<and>
   applyReplacers [otherAPIKeysReplacer] ''powerdns: api_key: Zm9vYmFy''
   = ''powerdns: api_key: ********''"
proof -
  let ?wr = "\<lparr>target = ''/tmp/x/f'', replacers = [otherAPIKeysReplacer]\<rparr>"
  have o: "newRedactingWriter quietSys ''/tmp/x/f'' emptyWorld
           = (Inr ?wr, createTruncate ''/tmp/x/f'' ByRedactingWriter emptyWorld)"
    by (simp add: newRedactingWriter_def NewRedactingWriter_def RegisterReplacer_def
                  quietSys_def)
  have e: "applyReplacers [otherAPIKeysReplacer] ''powerdns: api_key: Zm9vYmFy''
           = ''powerdns: api_key: ********''"
    by code_simp
  from registered_replacers_idempotent
         [of "''powerdns: api_key: Zm9vYmFy''" quietSys "''/tmp/x/f''" emptyWorld ?wr
             "createTruncate ''/tmp/x/f'' ByRedactingWriter emptyWorld"] o
  have "applyReplacers [otherAPIKeysReplacer]
          (applyReplacers [otherAPIKeysReplacer] ''powerdns: api_key: Zm9vYmFy'')
        = applyReplacers [otherAPIKeysReplacer] ''powerdns: api_key: Zm9vYmFy''"
    by simp
  with e show ?thesis by simp
qed

section \<open>What the replacer masks\<close>

text \<open>
  C5, as the claim states it, fails: the value of an occurrence of the pattern can
  survive redaction. In \<open>api_key: api_key: secret\<close> the scan matches at the first key
  and takes \<open>api_key:\<close> as its value, so that the second key's value is left in the
  output.
\<close>

theorem otherAPIKeys_value_survives:
  "rxMatch otherAPIKeysRx ''api_key: secret'' \<and>
   applyReplacer otherAPIKeysReplacer (''api_key: '' @ ''api_key: secret'')
     = ''api_key: ******** secret'' \<and>
   containsStr (applyReplacer otherAPIKeysReplacer (''api_key: '' @ ''api_key: secret''))
     ''secret''"
  by code_simp

text \<open>
  C5, amended. Let the input contain an occurrence of the pattern: the key \<open>api_key\<close>,
  optional white space, a colon, optional white space and a nonempty value made of the
  characters the pattern allows, the value ending where the input ends or a character
  outside the class follows. Then the output contains the masked form
  \<open>api_key: ********\<close> and no occurrence of the pattern is left in it; and when the
  pattern matches at no position before the occurrence, the occurrence as a whole, its
  value included, is replaced by the masked form.
\<close>

theorem otherAPIKeys_masks_occurrence:
  assumes ws1: "\<forall>x\<in>set ws1. isSpace x" and ws2: "\<forall>x\<in>set ws2. isSpace x"
    and v: "v \<noteq> []" "\<forall>x\<in>set v. isKeyValueChar x"
    and post: "post = [] \<or> \<not> isKeyValueChar (hd post)"
    and out: "out = applyReplacer otherAPIKeysReplacer (pre @ ''api_key'' @ ws1 @ CHR '':'' # ws2 @ v @ post)"
  shows "containsStr out ''api_key: ********'' \<and> \<not> rxMatch otherAPIKeysRx out \<and>
         (noMatchStarts pre (''api_key'' @ ws1 @ CHR '':'' # ws2 @ v @ post) \<longrightarrow>
            out = pre @ ''api_key: ********'' @ applyReplacer otherAPIKeysReplacer post)"
proof -
  let ?m = "''api_key'' @ ws1 @ CHR '':'' # ws2 @ v @ post"
  have m: "matchHere otherAPIKeysRx ?m = Some post"
    using ws1 ws2 v post by (rule occurrence_matches)
  then have "rxMatch otherAPIKeysRx (pre @ ?m)"
    by (intro rxMatch_append rxMatch_here)
  then have 1: "containsStr out ''api_key: ********''"
    unfolding out containsStr_iff by (rule match_gives_mask)
  have 2: "\<not> rxMatch otherAPIKeysRx out" unfolding out by (rule no_match_after)
  have am: "applyReplacer otherAPIKeysReplacer ?m = ''api_key: ********'' @ applyReplacer otherAPIKeysReplacer post"
    using m by (simp add: apply_otherAPIKeys_Cons)
  have 3: "noMatchStarts pre ?m \<longrightarrow> out = pre @ ''api_key: ********'' @ applyReplacer otherAPIKeysReplacer post"
    unfolding out using am apply_after_prefix [of pre ?m] by simp
  from 1 2 3 show ?thesis by blast
qed

theorem otherAPIKeys_masks_occurrence_witness:
  "applyReplacer otherAPIKeysReplacer ''dns: api_key :  s3cr3t/Key=, x'' = ''dns: api_key: ********, x'' \<and>
   containsStr (applyReplacer otherAPIKeysReplacer ''dns: api_key :  s3cr3t/Key=, x'') ''api_key: ********'' \<and>
   \<not> rxMatch otherAPIKeysRx (applyReplacer otherAPIKeysReplacer ''dns: api_key :  s3cr3t/Key=, x'')"
proof -
  let ?s = "''dns: api_key :  s3cr3t/Key=, x''"
  have a: "\<forall>x\<in>set '' ''. isSpace x" "\<forall>x\<in>set ''  ''. isSpace x" by (simp_all add: isSpace_def)
  have b: "''s3cr3t/Key='' \<noteq> []" "\<forall>x\<in>set ''s3cr3t/Key=''. isKeyValueChar x"
    by (simp_all add: cls_defs)
  have c: "'', x'' = [] \<or> \<not> isKeyValueChar (hd '', x'')" by (simp add: cls_defs)
  have d: "noMatchStarts ''dns: '' (''api_key'' @ '' '' @ CHR '':'' # ''  '' @ ''s3cr3t/Key='' @ '', x'')"
    by (simp add: otherAPIKeysRx_def lit_def)
  have e: "applyReplacer otherAPIKeysReplacer '', x'' = '', x''" by code_simp
  have s: "''dns: '' @ ''api_key'' @ '' '' @ CHR '':'' # ''  '' @ ''s3cr3t/Key='' @ '', x'' = ?s"
    by simp
  have r: "''dns: '' @ ''api_key: ********'' @ '', x'' = ''dns: api_key: ********, x''" by simp
  from otherAPIKeys_masks_occurrence [OF a b c refl, of "''dns: ''"] d
  have "containsStr (applyReplacer otherAPIKeysReplacer ?s) ''api_key: ********'' \<and>
        \<not> rxMatch otherAPIKeysRx (applyReplacer otherAPIKeysReplacer ?s) \<and>
        applyReplacer otherAPIKeysReplacer ?s =
          ''dns: '' @ ''api_key: ********'' @ applyReplacer otherAPIKeysReplacer '', x''"
    unfolding s by blast
  then show ?thesis unfolding e r by blast
qed

section \<open>The parent chain walk\<close>

text \<open>
  C9. For every directory path the walk of \<open>addParentPerms\<close> ends (the function is
  total), and it calls the tracker's \<open>add\<close> on the parent of the path, on the parent of
  that, and so on: on the first \<open>n\<close> iterates of \<open>Dir\<close>, none of which is \<open>.\<close>, where
  the walk stops either because the next iterate is \<open>.\<close> or at the first recorded
  directory whose own parent has the same length (the root).
\<close>

theorem addParentPerms_records_chain:
  "\<exists>n. addParentPerms os dirPath m
         = fold (add os) (map (\<lambda>i. (Dir ^^ Suc i) dirPath) [0..<n]) m
       \<and> (\<forall>i<n. (Dir ^^ Suc i) dirPath \<noteq> ''.'')
       \<and> (\<forall>i. Suc i < n \<longrightarrow>
             length ((Dir ^^ Suc (Suc i)) dirPath) \<noteq> length ((Dir ^^ Suc i) dirPath))
       \<and> ((Dir ^^ Suc n) dirPath = ''.'' \<or>
          (0 < n \<and> length ((Dir ^^ Suc n) dirPath) = length ((Dir ^^ n) dirPath)))"
proof -
  have sh: "\<And>i. (Dir ^^ i) (Dir dirPath) = (Dir ^^ Suc i) dirPath"
    by (simp add: funpow_swap1)
  obtain n where n:
    "parentLoop os (Dir dirPath) m
       = fold (add os) (map (\<lambda>i. (Dir ^^ i) (Dir dirPath)) [0..<n]) m
     \<and> (\<forall>i<n. (Dir ^^ i) (Dir dirPath) \<noteq> ''.'')
     \<and> (\<forall>i. Suc i < n \<longrightarrow>
       length ((Dir ^^ Suc i) (Dir dirPath)) \<noteq> length ((Dir ^^ i) (Dir dirPath)))
     \<and> ((Dir ^^ n) (Dir dirPath) = ''.'' \<or>
      (0 < n \<and> length ((Dir ^^ n) (Dir dirPath)) = length ((Dir ^^ (n - 1)) (Dir dirPath))))"
    using parentLoop_chain [of os "Dir dirPath" m] ..
  show ?thesis
  proof (intro exI [of _ n] conjI)
    show "addParentPerms os dirPath m
         = fold (add os) (map (\<lambda>i. (Dir ^^ Suc i) dirPath) [0..<n]) m"
      using n unfolding addParentPerms_def sh by blast
    show "\<forall>i<n. (Dir ^^ Suc i) dirPath \<noteq> ''.''"
      using n unfolding sh by blast
    show "\<forall>i. Suc i < n \<longrightarrow>
             length ((Dir ^^ Suc (Suc i)) dirPath) \<noteq> length ((Dir ^^ Suc i) dirPath)"
      using n unfolding sh by blast
    show "(Dir ^^ Suc n) dirPath = ''.'' \<or>
          (0 < n \<and> length ((Dir ^^ Suc n) dirPath) = length ((Dir ^^ n) dirPath))"
      using n unfolding sh by (cases n) (auto simp del: funpow.simps)
  qed
qed

theorem addParentPerms_records_chain_witness:
  "(\<exists>n. addParentPerms (quietSys\<lparr>osStat := (\<lambda>_. Inr noInfo)\<rparr>) ''/etc/datadog-agent/conf.d'' Map.empty
          = fold (add (quietSys\<lparr>osStat := (\<lambda>_. Inr noInfo)\<rparr>))
              (map (\<lambda>i. (Dir ^^ Suc i) ''/etc/datadog-agent/conf.d'') [0..<n]) Map.empty
        \<and> (\<forall>i<n. (Dir ^^ Suc i) ''/etc/datadog-agent/conf.d'' \<noteq> ''.'')
        \<and> (\<forall>i. Suc i < n \<longrightarrow>
              length ((Dir ^^ Suc (Suc i)) ''/etc/datadog-agent/conf.d'')
                \<noteq> length ((Dir ^^ Suc i) ''/etc/datadog-agent/conf.d''))
        \<and> ((Dir ^^ Suc n) ''/etc/datadog-agent/conf.d'' = ''.'' \<or>
           (0 < n \<and> length ((Dir ^^ Suc n) ''/etc/datadog-agent/conf.d'')
                     = length ((Dir ^^ n) ''/etc/datadog-agent/conf.d''))))
   \<and> map (\<lambda>i. (Dir ^^ Suc i) ''/etc/datadog-agent/conf.d'') [0, 1, 2]
       = [''/etc/datadog-agent'', ''/etc'', ''/'']
   \<and> map (addParentPerms (quietSys\<lparr>osStat := (\<lambda>_. Inr noInfo)\<rparr>)
             ''/etc/datadog-agent/conf.d'' Map.empty)
          [''/etc/datadog-agent'', ''/etc'', ''/'', ''/etc/datadog-agent/conf.d'', ''.'']
       = [Some noInfo, Some noInfo, Some noInfo, None, None]"
proof -
  have a: "map (\<lambda>i. (Dir ^^ Suc i) ''/etc/datadog-agent/conf.d'') [0, 1, 2]
       = [''/etc/datadog-agent'', ''/etc'', ''/'']"
    by code_simp
  have b: "map (addParentPerms (quietSys\<lparr>osStat := (\<lambda>_. Inr noInfo)\<rparr>)
             ''/etc/datadog-agent/conf.d'' Map.empty)
          [''/etc/datadog-agent'', ''/etc'', ''/'', ''/etc/datadog-agent/conf.d'', ''.'']
       = [Some noInfo, Some noInfo, Some noInfo, None, None]"
    by code_simp
  from addParentPerms_records_chain
         [of "quietSys\<lparr>osStat := (\<lambda>_. Inr noInfo)\<rparr>" "''/etc/datadog-agent/conf.d''" Map.empty]
       a b
  show ?thesis by blast
qed

section \<open>Which files the configuration walk copies\<close>

text \<open>
  C7. For a regular file the function of the walk does nothing when the final extension
  is \<open>.example\<close>, and nothing when neither the first suffix nor the final extension
  matches the YAML pattern: \<open>foo.yaml.example\<close> and \<open>name.bak\<close> are not copied.
  \<open>foo.yaml\<close> (final extension) and \<open>foo.yaml.bak\<close> (first suffix) are copied: when
  the destination can be written and the source read, the destination holds the
  redacted bytes of the source.
\<close>

theorem walkConfigFile_selection:
  assumes "\<not> IsDir f"
  shows
  "(Ext (Name f) = ''.example'' \<longrightarrow>
      walkConfigFilePathsFn os tempDir hostname prefix filePath src (Some f) st = (None, st)) \<and>
   (\<not> rxMatch cnfFileExtRx (getFirstSuffix (Name f)) \<and> \<not> rxMatch cnfFileExtRx (Ext (Name f)) \<longrightarrow>
      walkConfigFilePathsFn os tempDir hostname prefix filePath src (Some f) st = (None, st)) \<and>
   (Name f = ''foo.yaml.example'' \<or> Name f = ''name.bak'' \<longrightarrow>
      walkConfigFilePathsFn os tempDir hostname prefix filePath src (Some f) st = (None, st)) \<and>
   ((Name f = ''foo.yaml'' \<or> Name f = ''foo.yaml.bak'') \<and>
    dst = Join [tempDir, hostname, ''etc'', ''confd'', prefix, replaceFirst src filePath []] \<and>
    canWrite os dst \<and> osReadFile os src = Inr data \<longrightarrow>
      fst (walkConfigFilePathsFn os tempDir hostname prefix filePath src (Some f) st) = None \<and>
      files (snd (snd (walkConfigFilePathsFn os tempDir hostname prefix filePath src (Some f) st))) dst
        = Some \<lparr>writtenBy = ByRedactingWriter,
                content = redact (CredentialsCleaner os) [otherAPIKeysReplacer] data\<rparr>)"
proof -
  let ?r = "walkConfigFilePathsFn os tempDir hostname prefix filePath src (Some f) st"
  have 1: "Ext (Name f) = ''.example'' \<longrightarrow> ?r = (None, st)"
    using assms walkConfigFile_skip by blast
  have 2: "\<not> rxMatch cnfFileExtRx (getFirstSuffix (Name f)) \<and> \<not> rxMatch cnfFileExtRx (Ext (Name f))
           \<longrightarrow> ?r = (None, st)"
    using assms walkConfigFile_skip by blast
  have 3: "Name f = ''foo.yaml.example'' \<or> Name f = ''name.bak'' \<longrightarrow> ?r = (None, st)"
  proof
    assume "Name f = ''foo.yaml.example'' \<or> Name f = ''name.bak''"
    then show "?r = (None, st)"
    proof
      assume "Name f = ''foo.yaml.example''"
      then have "Ext (Name f) = ''.example''" by (simp only: ext_examples)
      with 1 show ?thesis by blast
    next
      assume n: "Name f = ''name.bak''"
      have "\<not> rxMatch cnfFileExtRx (getFirstSuffix (Name f)) \<and> \<not> rxMatch cnfFileExtRx (Ext (Name f))"
        unfolding n ext_examples using match_examples by blast
      with 2 show ?thesis by blast
    qed
  qed
  have 4: "(Name f = ''foo.yaml'' \<or> Name f = ''foo.yaml.bak'') \<and>
    dst = Join [tempDir, hostname, ''etc'', ''confd'', prefix, replaceFirst src filePath []] \<and>
    canWrite os dst \<and> osReadFile os src = Inr data \<longrightarrow>
      fst ?r = None \<and>
      files (snd (snd ?r)) dst
        = Some \<lparr>writtenBy = ByRedactingWriter,
                content = redact (CredentialsCleaner os) [otherAPIKeysReplacer] data\<rparr>"
  proof
    assume a: "(Name f = ''foo.yaml'' \<or> Name f = ''foo.yaml.bak'') \<and>
      dst = Join [tempDir, hostname, ''etc'', ''confd'', prefix, replaceFirst src filePath []] \<and>
      canWrite os dst \<and> osReadFile os src = Inr data"
    then have n: "Name f = ''foo.yaml'' \<or> Name f = ''foo.yaml.bak''"
      and d: "dst = Join [tempDir, hostname, ''etc'', ''confd'', prefix, replaceFirst src filePath []]"
      and c: "canWrite os dst" and r: "osReadFile os src = Inr data" by blast+
    from n have s: "Ext (Name f) \<noteq> ''.example'' \<and>
      (rxMatch cnfFileExtRx (getFirstSuffix (Name f)) \<or> rxMatch cnfFileExtRx (Ext (Name f)))"
    proof
      assume n: "Name f = ''foo.yaml''"
      show ?thesis unfolding n ext_examples using match_examples by simp
    next
      assume n: "Name f = ''foo.yaml.bak''"
      show ?thesis unfolding n ext_examples using match_examples by simp
    qed
    from s have s1: "Ext (Name f) \<noteq> ''.example''"
      and s2: "rxMatch cnfFileExtRx (getFirstSuffix (Name f)) \<or> rxMatch cnfFileExtRx (Ext (Name f))"
      by blast+
    show "fst ?r = None \<and>
      files (snd (snd ?r)) dst
        = Some \<lparr>writtenBy = ByRedactingWriter,
                content = redact (CredentialsCleaner os) [otherAPIKeysReplacer] data\<rparr>"
      by (rule walkConfigFile_copy [OF assms s1 s2 d c r])
  qed
  from 1 2 3 4 show ?thesis by blast
qed

theorem walkConfigFile_selection_witness:
  "walkConfigFilePathsFn quietSys ''/tmp/ab'' ''web-1'' ''dist'' ''/opt/dist/conf.d''
      ''/opt/dist/conf.d/foo.yaml.example'' (Some \<lparr>Name = ''foo.yaml.example'', IsDir = False\<rparr>)
      (None, emptyWorld) = (None, (None, emptyWorld)) \<and>
   files (snd (snd (walkConfigFilePathsFn
        (quietSys\<lparr>osReadFile := (\<lambda>_. Inr ''pdns: api_key: abc'')\<rparr>)
        ''/tmp/ab'' ''web-1'' ''dist'' ''/opt/dist/conf.d''
        ''/opt/dist/conf.d/pdns.d/foo.yaml.bak'' (Some \<lparr>Name = ''foo.yaml.bak'', IsDir = False\<rparr>)
        (None, emptyWorld))))
      ''/tmp/ab/web-1/etc/confd/dist/pdns.d/foo.yaml.bak''
     = Some \<lparr>writtenBy = ByRedactingWriter, content = ''pdns: api_key: ********''\<rparr>"
proof -
  let ?os = "quietSys\<lparr>osReadFile := (\<lambda>_. Inr ''pdns: api_key: abc'')\<rparr>"
  let ?f1 = "\<lparr>Name = ''foo.yaml.example'', IsDir = False\<rparr>"
  let ?f2 = "\<lparr>Name = ''foo.yaml.bak'', IsDir = False\<rparr>"
  let ?dst = "''/tmp/ab/web-1/etc/confd/dist/pdns.d/foo.yaml.bak''"
  have j: "?dst = Join [''/tmp/ab'', ''web-1'', ''etc'', ''confd'', ''dist'',
             replaceFirst ''/opt/dist/conf.d/pdns.d/foo.yaml.bak'' ''/opt/dist/conf.d'' []]"
    by code_simp
  have c: "canWrite ?os ?dst"
    by (simp add: canWrite_def ensureParentDirsExist_def quietSys_def)
  have r: "osReadFile ?os ''/opt/dist/conf.d/pdns.d/foo.yaml.bak'' = Inr ''pdns: api_key: abc''"
    by simp
  have e: "Ext (Name ?f1) = ''.example''" by (simp add: ext_examples)
  have v: "redact (CredentialsCleaner ?os) [otherAPIKeysReplacer] ''pdns: api_key: abc''
           = ''pdns: api_key: ********''"
    unfolding quietSys_def by code_simp
  have 1: "walkConfigFilePathsFn quietSys ''/tmp/ab'' ''web-1'' ''dist'' ''/opt/dist/conf.d''
      ''/opt/dist/conf.d/foo.yaml.example'' (Some ?f1) (None, emptyWorld) = (None, (None, emptyWorld))"
    using walkConfigFile_selection [of ?f1 quietSys "''/tmp/ab''" "''web-1''" "''dist''"
        "''/opt/dist/conf.d''" "''/opt/dist/conf.d/foo.yaml.example''" "(None, emptyWorld)"] e
    by simp
  have 2: "files (snd (snd (walkConfigFilePathsFn ?os ''/tmp/ab'' ''web-1'' ''dist'' ''/opt/dist/conf.d''
        ''/opt/dist/conf.d/pdns.d/foo.yaml.bak'' (Some ?f2) (None, emptyWorld)))) ?dst
     = Some \<lparr>writtenBy = ByRedactingWriter,
             content = redact (CredentialsCleaner ?os) [otherAPIKeysReplacer] ''pdns: api_key: abc''\<rparr>"
    using walkConfigFile_selection [of ?f2 ?os "''/tmp/ab''" "''web-1''" "''dist''"
        "''/opt/dist/conf.d''" "''/opt/dist/conf.d/pdns.d/foo.yaml.bak''" "(None, emptyWorld)"
        ?dst "''pdns: api_key: abc''"] j c r
    by simp
  from 1 2 show ?thesis unfolding v by (rule conjI)
qed



section \<open>The collectors that ask over HTTP\<close>

text \<open>
  C3, as the claim states it, fails: \<open>writeHTTPCallContent\<close>, which collects the
  telemetry and the goroutine dump, returns a transport error to the orchestrator and
  writes no file.
\<close>

theorem stack_traces_transport_error_propagates:
  "writeStackTraces quietSys quietAgent ''/tmp/ab'' ''web-1'' emptyWorld
     = (Some (Err ''connection refused''), emptyWorld) \<and>
   Join [''/tmp/ab'', ''web-1'', routineDumpFilename] = ''/tmp/ab/web-1/go-routine-dump.log'' \<and>
   files emptyWorld ''/tmp/ab/web-1/go-routine-dump.log'' = None"
proof -
  have "writeStackTraces quietSys quietAgent ''/tmp/ab'' ''web-1'' emptyWorld
     = (Some (Err ''connection refused''), emptyWorld)"
    by (simp add: writeStackTraces_def writeHTTPCallContent_def quietSys_def)
  moreover have "Join [''/tmp/ab'', ''web-1'', routineDumpFilename]
                 = ''/tmp/ab/web-1/go-routine-dump.log''"
    by code_simp
  moreover have "files emptyWorld ''/tmp/ab/web-1/go-routine-dump.log'' = None"
    by (simp add: emptyWorld_def)
  ultimately show ?thesis by blast
qed

text \<open>
  C3, amended. The trace-agent part of \<open>writeExpVar\<close> turns a failed GET into
  payload: on a transport error it writes \<open>Error retrieving vars:\<close> and the error, on
  a status other than 200 it writes \<open>Got response\<close>, the status and the body, both
  through the redacting writer, and returns no error. \<open>writeHTTPCallContent\<close> returns
  a transport error and leaves the world as it was; given any response, whatever its
  status, it writes the body, chunk by chunk through the redacting writer, and returns
  the body's read error. \<open>writeTaggerList\<close> returns the error of its GET, whether the
  URL is the one it builds from the IPC address and the command port or the one set
  beforehand, and leaves the file it has already created empty.
\<close>

theorem http_collectors_on_failure:
  "(writeExpVarLoop os tempDir hostname (expvars ag) w = (None, w0) \<and>
    f = Join [tempDir, hostname, ''expvar'', ''trace-agent''] \<and>
    osOpenFile os f = None \<and> osWrite os f = None \<and>
    httpDo os (''http://127.0.0.1:'' @ apmPortOf os ag @ ''/debug/vars'') = Inl err \<longrightarrow>
      fst (writeExpVar os ag tempDir hostname w) = None \<and>
      files (snd (writeExpVar os ag tempDir hostname w)) f
        = Some \<lparr>writtenBy = ByRedactingWriter,
                content = pipeline os (''Error retrieving vars: '' @ errMsg err)\<rparr>) \<and>
   (writeExpVarLoop os tempDir hostname (expvars ag) w = (None, w0) \<and>
    f = Join [tempDir, hostname, ''expvar'', ''trace-agent''] \<and>
    osOpenFile os f = None \<and> osWrite os f = None \<and>
    httpDo os (''http://127.0.0.1:'' @ apmPortOf os ag @ ''/debug/vars'') = Inr resp \<and>
    StatusCode resp \<noteq> 200 \<and> ReadAll resp = Inr slurp \<longrightarrow>
      fst (writeExpVar os ag tempDir hostname w) = None \<and>
      files (snd (writeExpVar os ag tempDir hostname w)) f
        = Some \<lparr>writtenBy = ByRedactingWriter,
                content = pipeline os (''Got response '' @ Status resp
                    @ '' from /debug/vars:'' @ [CHR 0x0A] @ slurp)\<rparr>) \<and>
   (httpNewRequest os url = None \<and> httpDo os url = Inl err \<longrightarrow>
      writeHTTPCallContent os tempDir hostname filename url w = (Some err, w)) \<and>
   (httpNewRequest os url = None \<and> httpDo os url = Inr resp \<and>
    canWrite os (Join [tempDir, hostname, filename]) \<longrightarrow>
      fst (writeHTTPCallContent os tempDir hostname filename url w) = BodyErr resp \<and>
      files (snd (writeHTTPCallContent os tempDir hostname filename url w))
            (Join [tempDir, hostname, filename])
        = Some \<lparr>writtenBy = ByRedactingWriter,
                content = concat (map (pipeline os) (BodyChunks resp))\<rparr>) \<and>
   (g = Join [tempDir, hostname, ''tagger-list.json''] \<and>
    ensureParentDirsExist os g = None \<and> osOpenFile os g = None \<and>
    GetIPCAddress ag = Inr ipcAddress \<and>
    DoGet ag (if taggerListURL ag = []
              then ''https://'' @ ipcAddress @ '':'' @ cmd_port ag @ ''/agent/tagger-list''
              else taggerListURL ag) = Inl err \<longrightarrow>
      writeTaggerList os ag tempDir hostname w
        = (Some err, createTruncate g ByRedactingWriter w) \<and>
      files (snd (writeTaggerList os ag tempDir hostname w)) g
        = Some \<lparr>writtenBy = ByRedactingWriter, content = []\<rparr>)"
proof (intro conjI impI)
  assume "writeExpVarLoop os tempDir hostname (expvars ag) w = (None, w0) \<and>
    f = Join [tempDir, hostname, ''expvar'', ''trace-agent''] \<and>
    osOpenFile os f = None \<and> osWrite os f = None \<and>
    httpDo os (''http://127.0.0.1:'' @ apmPortOf os ag @ ''/debug/vars'') = Inl err"
  then have a: "writeExpVarLoop os tempDir hostname (expvars ag) w = (None, w0)"
    "f = Join [tempDir, hostname, ''expvar'', ''trace-agent'']"
    "osOpenFile os f = None" "osWrite os f = None"
    "httpDo os (''http://127.0.0.1:'' @ apmPortOf os ag @ ''/debug/vars'') = Inl err"
    by blast+
  from writeExpVar_transport [OF a]
  show "fst (writeExpVar os ag tempDir hostname w) = None"
    and "files (snd (writeExpVar os ag tempDir hostname w)) f
        = Some \<lparr>writtenBy = ByRedactingWriter,
                content = pipeline os (''Error retrieving vars: '' @ errMsg err)\<rparr>"
    by blast+
next
  assume "writeExpVarLoop os tempDir hostname (expvars ag) w = (None, w0) \<and>
    f = Join [tempDir, hostname, ''expvar'', ''trace-agent''] \<and>
    osOpenFile os f = None \<and> osWrite os f = None \<and>
    httpDo os (''http://127.0.0.1:'' @ apmPortOf os ag @ ''/debug/vars'') = Inr resp \<and>
    StatusCode resp \<noteq> 200 \<and> ReadAll resp = Inr slurp"
  then have a: "writeExpVarLoop os tempDir hostname (expvars ag) w = (None, w0)"
    "f = Join [tempDir, hostname, ''expvar'', ''trace-agent'']"
    "osOpenFile os f = None" "osWrite os f = None"
    "httpDo os (''http://127.0.0.1:'' @ apmPortOf os ag @ ''/debug/vars'') = Inr resp"
    "StatusCode resp \<noteq> 200" "ReadAll resp = Inr slurp"
    by blast+
  from writeExpVar_status [OF a]
  show "fst (writeExpVar os ag tempDir hostname w) = None"
    and "files (snd (writeExpVar os ag tempDir hostname w)) f
        = Some \<lparr>writtenBy = ByRedactingWriter,
                content = pipeline os (''Got response '' @ Status resp
                    @ '' from /debug/vars:'' @ [CHR 0x0A] @ slurp)\<rparr>"
    by blast+
next
  assume "httpNewRequest os url = None \<and> httpDo os url = Inl err"
  then show "writeHTTPCallContent os tempDir hostname filename url w = (Some err, w)"
    using writeHTTPCallContent_transport by blast
next
  assume "httpNewRequest os url = None \<and> httpDo os url = Inr resp \<and>
    canWrite os (Join [tempDir, hostname, filename])"
  then have a: "httpNewRequest os url = None" "httpDo os url = Inr resp"
    "canWrite os (Join [tempDir, hostname, filename])" by blast+
  from writeHTTPCallContent_body [OF a]
  show "fst (writeHTTPCallContent os tempDir hostname filename url w) = BodyErr resp"
    and "files (snd (writeHTTPCallContent os tempDir hostname filename url w))
            (Join [tempDir, hostname, filename])
        = Some \<lparr>writtenBy = ByRedactingWriter,
                content = concat (map (pipeline os) (BodyChunks resp))\<rparr>"
    by blast+
next
  assume "g = Join [tempDir, hostname, ''tagger-list.json''] \<and>
    ensureParentDirsExist os g = None \<and> osOpenFile os g = None \<and>
    GetIPCAddress ag = Inr ipcAddress \<and>
    DoGet ag (if taggerListURL ag = []
              then ''https://'' @ ipcAddress @ '':'' @ cmd_port ag @ ''/agent/tagger-list''
              else taggerListURL ag) = Inl err"
  then have a: "g = Join [tempDir, hostname, ''tagger-list.json'']"
    "ensureParentDirsExist os g = None" "osOpenFile os g = None"
    "GetIPCAddress ag = Inr ipcAddress"
    "DoGet ag (if taggerListURL ag = []
              then ''https://'' @ ipcAddress @ '':'' @ cmd_port ag @ ''/agent/tagger-list''
              else taggerListURL ag) = Inl err" by blast+
  show e: "writeTaggerList os ag tempDir hostname w
        = (Some err, createTruncate g ByRedactingWriter w)"
    by (rule writeTaggerList_get_error [OF a])
  show "files (snd (writeTaggerList os ag tempDir hostname w)) g
        = Some \<lparr>writtenBy = ByRedactingWriter, content = []\<rparr>"
    unfolding e by (simp add: files_createTruncate)
qed

theorem http_collectors_on_failure_witness:
  "fst (writeExpVar quietSys quietAgent ''/tmp/ab'' ''web-1'' emptyWorld) = None \<and>
   files (snd (writeExpVar quietSys quietAgent ''/tmp/ab'' ''web-1'' emptyWorld))
         ''/tmp/ab/web-1/expvar/trace-agent''
     = Some \<lparr>writtenBy = ByRedactingWriter,
             content = ''Error retrieving vars: connection refused''\<rparr> \<and>
   fst (writeExpVar (quietSys\<lparr>httpDo := (\<lambda>_. Inr busyResponse)\<rparr>) quietAgent
          ''/tmp/ab'' ''web-1'' emptyWorld) = None \<and>
   files (snd (writeExpVar (quietSys\<lparr>httpDo := (\<lambda>_. Inr busyResponse)\<rparr>) quietAgent
          ''/tmp/ab'' ''web-1'' emptyWorld))
         ''/tmp/ab/web-1/expvar/trace-agent''
     = Some \<lparr>writtenBy = ByRedactingWriter,
             content = ''Got response 503 Service Unavailable from /debug/vars:''
                       @ [CHR 0x0A] @ ''try later, api_key: ********''\<rparr> \<and>
   writeHTTPCallContent quietSys ''/tmp/ab'' ''web-1'' ''telemetry.log''
       ''http://127.0.0.1:5000/telemetry'' emptyWorld
     = (Some (Err ''connection refused''), emptyWorld) \<and>
   fst (writeHTTPCallContent (quietSys\<lparr>httpDo := (\<lambda>_. Inr busyResponse)\<rparr>)
          ''/tmp/ab'' ''web-1'' ''telemetry.log'' ''http://127.0.0.1:5000/telemetry'' emptyWorld)
     = None \<and>
   files (snd (writeHTTPCallContent (quietSys\<lparr>httpDo := (\<lambda>_. Inr busyResponse)\<rparr>)
          ''/tmp/ab'' ''web-1'' ''telemetry.log'' ''http://127.0.0.1:5000/telemetry'' emptyWorld))
         ''/tmp/ab/web-1/telemetry.log''
     = Some \<lparr>writtenBy = ByRedactingWriter, content = ''try later, api_key: abc''\<rparr> \<and>
   writeTaggerList quietSys (quietAgent\<lparr>DoGet := (\<lambda>_. Inl (Err ''status code: 500''))\<rparr>)
       ''/tmp/ab'' ''web-1'' emptyWorld
     = (Some (Err ''status code: 500''),
        createTruncate ''/tmp/ab/web-1/tagger-list.json'' ByRedactingWriter emptyWorld) \<and>
   files (snd (writeTaggerList quietSys
                 (quietAgent\<lparr>DoGet := (\<lambda>_. Inl (Err ''status code: 500''))\<rparr>)
                 ''/tmp/ab'' ''web-1'' emptyWorld))
         ''/tmp/ab/web-1/tagger-list.json''
     = Some \<lparr>writtenBy = ByRedactingWriter, content = []\<rparr>"
proof -
  let ?os = "quietSys\<lparr>httpDo := (\<lambda>_. Inr busyResponse)\<rparr>"
  let ?ag = "quietAgent\<lparr>DoGet := (\<lambda>_. Inl (Err ''status code: 500''))\<rparr>"
  let ?f = "''/tmp/ab/web-1/expvar/trace-agent''"
  let ?t = "''/tmp/ab/web-1/telemetry.log''"
  let ?g = "''/tmp/ab/web-1/tagger-list.json''"
  let ?u = "''http://127.0.0.1:5000/telemetry''"
  have jf: "?f = Join [''/tmp/ab'', ''web-1'', ''expvar'', ''trace-agent'']" by code_simp
  have jt: "Join [''/tmp/ab'', ''web-1'', ''telemetry.log''] = ?t" by code_simp
  have jg: "?g = Join [''/tmp/ab'', ''web-1'', ''tagger-list.json'']" by code_simp
  have l1: "writeExpVarLoop quietSys ''/tmp/ab'' ''web-1'' (expvars quietAgent) emptyWorld
           = (None, emptyWorld)"
    by (simp add: quietAgent_def)
  have l2: "writeExpVarLoop ?os ''/tmp/ab'' ''web-1'' (expvars quietAgent) emptyWorld
           = (None, emptyWorld)"
    by (simp add: quietAgent_def)
  have o1: "osOpenFile quietSys ?f = None" "osWrite quietSys ?f = None"
    by (simp_all add: quietSys_def)
  have o2: "osOpenFile ?os ?f = None" "osWrite ?os ?f = None"
    by (simp_all add: quietSys_def)
  have h1: "httpDo quietSys (''http://127.0.0.1:'' @ apmPortOf quietSys quietAgent @ ''/debug/vars'')
           = Inl (Err ''connection refused'')"
    by (simp add: quietSys_def)
  have h2: "httpDo ?os (''http://127.0.0.1:'' @ apmPortOf ?os quietAgent @ ''/debug/vars'')
           = Inr busyResponse"
    by simp
  have s2: "StatusCode busyResponse \<noteq> 200"
    "ReadAll busyResponse = Inr ''try later, api_key: abc''"
    by (simp_all add: busyResponse_def ReadAll_def)
  have p1: "pipeline quietSys (''Error retrieving vars: '' @ errMsg (Err ''connection refused''))
            = ''Error retrieving vars: connection refused''"
    unfolding pipeline_def quietSys_def by code_simp
  have p2: "pipeline ?os (''Got response '' @ Status busyResponse @ '' from /debug/vars:''
                           @ [CHR 0x0A] @ ''try later, api_key: abc'')
            = ''Got response 503 Service Unavailable from /debug/vars:''
              @ [CHR 0x0A] @ ''try later, api_key: ********''"
    unfolding pipeline_def quietSys_def busyResponse_def by code_simp
  have r3: "httpNewRequest quietSys ?u = None" "httpDo quietSys ?u = Inl (Err ''connection refused'')"
    by (simp_all add: quietSys_def)
  have r4: "httpNewRequest ?os ?u = None" "httpDo ?os ?u = Inr busyResponse"
    by (simp_all add: quietSys_def)
  have c4: "canWrite ?os (Join [''/tmp/ab'', ''web-1'', ''telemetry.log''])"
    by (simp add: canWrite_def ensureParentDirsExist_def quietSys_def)
  have p4: "concat (map (pipeline ?os) (BodyChunks busyResponse)) = ''try later, api_key: abc''"
    unfolding pipeline_def quietSys_def busyResponse_def by code_simp
  have b4: "BodyErr busyResponse = None" by (simp add: busyResponse_def)
  have g5: "ensureParentDirsExist quietSys ?g = None" "osOpenFile quietSys ?g = None"
    by (simp_all add: ensureParentDirsExist_def quietSys_def)
  have i5: "GetIPCAddress ?ag = Inr ''localhost''" by (simp add: quietAgent_def)
  have d5: "DoGet ?ag (if taggerListURL ?ag = []
              then ''https://'' @ ''localhost'' @ '':'' @ cmd_port ?ag @ ''/agent/tagger-list''
              else taggerListURL ?ag) = Inl (Err ''status code: 500'')"
    by simp
  note t = http_collectors_on_failure
  have 1: "fst (writeExpVar quietSys quietAgent ''/tmp/ab'' ''web-1'' emptyWorld) = None \<and>
      files (snd (writeExpVar quietSys quietAgent ''/tmp/ab'' ''web-1'' emptyWorld)) ?f
        = Some \<lparr>writtenBy = ByRedactingWriter,
                content = pipeline quietSys
                   (''Error retrieving vars: '' @ errMsg (Err ''connection refused''))\<rparr>"
    using t [where os = quietSys and ag = quietAgent and tempDir = "''/tmp/ab''"
               and hostname = "''web-1''" and w = emptyWorld and ?w0.0 = emptyWorld and f = ?f
               and err = "Err ''connection refused''"] l1 jf o1 h1
    by blast
  have 2: "fst (writeExpVar ?os quietAgent ''/tmp/ab'' ''web-1'' emptyWorld) = None \<and>
      files (snd (writeExpVar ?os quietAgent ''/tmp/ab'' ''web-1'' emptyWorld)) ?f
        = Some \<lparr>writtenBy = ByRedactingWriter,
                content = pipeline ?os (''Got response '' @ Status busyResponse
                    @ '' from /debug/vars:'' @ [CHR 0x0A] @ ''try later, api_key: abc'')\<rparr>"
    using t [where os = ?os and ag = quietAgent and tempDir = "''/tmp/ab''"
               and hostname = "''web-1''" and w = emptyWorld and ?w0.0 = emptyWorld and f = ?f
               and resp = busyResponse and slurp = "''try later, api_key: abc''"] l2 jf o2 h2 s2
    by blast
  have 3: "writeHTTPCallContent quietSys ''/tmp/ab'' ''web-1'' ''telemetry.log'' ?u emptyWorld
           = (Some (Err ''connection refused''), emptyWorld)"
    using t [where os = quietSys and tempDir = "''/tmp/ab''" and hostname = "''web-1''"
               and w = emptyWorld and url = ?u and filename = "''telemetry.log''"
               and err = "Err ''connection refused''"] r3
    by blast
  have 4: "fst (writeHTTPCallContent ?os ''/tmp/ab'' ''web-1'' ''telemetry.log'' ?u emptyWorld)
             = BodyErr busyResponse \<and>
      files (snd (writeHTTPCallContent ?os ''/tmp/ab'' ''web-1'' ''telemetry.log'' ?u emptyWorld))
            (Join [''/tmp/ab'', ''web-1'', ''telemetry.log''])
        = Some \<lparr>writtenBy = ByRedactingWriter,
                content = concat (map (pipeline ?os) (BodyChunks busyResponse))\<rparr>"
    using t [where os = ?os and tempDir = "''/tmp/ab''" and hostname = "''web-1''"
               and w = emptyWorld and url = ?u and filename = "''telemetry.log''"
               and resp = busyResponse] r4 c4
    by blast
  have 5: "writeTaggerList quietSys ?ag ''/tmp/ab'' ''web-1'' emptyWorld
        = (Some (Err ''status code: 500''), createTruncate ?g ByRedactingWriter emptyWorld) \<and>
      files (snd (writeTaggerList quietSys ?ag ''/tmp/ab'' ''web-1'' emptyWorld)) ?g
        = Some \<lparr>writtenBy = ByRedactingWriter, content = []\<rparr>"
    using t [where os = quietSys and ag = ?ag and tempDir = "''/tmp/ab''"
               and hostname = "''web-1''" and w = emptyWorld and g = ?g
               and ipcAddress = "''localhost''" and err = "Err ''status code: 500''"]
          jg g5 i5 d5
    by blast
  from 1 2 3 4 5 show ?thesis unfolding p1 p2 p4 jt b4 by blast
qed

section \<open>What reaches the workspace unredacted\<close>




section \<open>What the orchestrator returns and what it logs\<close>




section \<open>The paths of the permissions tracker\<close>




end
